theory Spec2Isabelle
  imports Complex_Main "HOL-Library.AList"
begin

section \<open>Model registry and model selection manager\<close>

text \<open>
  A shallow embedding of \<^verbatim>\<open>packages/core/src/models\<close>: \<^verbatim>\<open>types.ts\<close>,
  \<^verbatim>\<open>modelRegistry.ts\<close> and \<^verbatim>\<open>modelSelectionManager.ts\<close>.

  Conventions of the embedding.
  \<^item> An optional property \<^verbatim>\<open>f?: T\<close> is a field of type \<open>T option\<close>; \<open>None\<close> is the
    property being absent, or present with the value \<^verbatim>\<open>undefined\<close> or \<^verbatim>\<open>null\<close>, wherever
    the code only tests or reads the property and so cannot tell these apart. The
    generation parameters are spread, which copies a property that is present whatever
    its value; there the three cases are kept apart (\<open>jsvalue\<close> below).
  \<^item> A JavaScript \<^verbatim>\<open>Map\<close> is an association list in insertion order.
    \<^verbatim>\<open>Map.set\<close> overwrites the value of a key in place and appends a new key at the
    end, which is \<open>AList.update\<close>; \<^verbatim>\<open>Map.get\<close> is \<open>map_of\<close>.
  \<^item> A \<^verbatim>\<open>throw\<close> is the left injection of a sum; where the object's state is still
    observable after the throw (\<^verbatim>\<open>switchModel\<close>) the state is returned next to it.
  \<^item> \<^verbatim>\<open>Date.now()\<close> and \<^verbatim>\<open>process.env\<close> are parameters.
  \<^item> A \<^verbatim>\<open>number\<close> is only stored and copied, never computed with; it is a \<open>real\<close>.
\<close>

subsection \<open>types.ts\<close>

text \<open>
  Modelled from the spec: the string enum \<^verbatim>\<open>AuthType\<close> of \<^verbatim>\<open>core/contentGenerator.ts\<close>,
  which is not among the sources. A provider-type is a named category; the registry
  casts every key of the providers configuration to the enum (\<^verbatim>\<open>authType as AuthType\<close>),
  so at run time a provider-type is any string. The members used here carry the values
  that the registry's tests and \<^verbatim>\<open>DEFAULT_BASE_URLS\<close> give them.
\<close>

type_synonym AuthType = string

definition QWEN_OAUTH :: AuthType where
  "QWEN_OAUTH = ''qwen-oauth''"

definition USE_OPENAI :: AuthType where
  "USE_OPENAI = ''openai''"

definition USE_GEMINI :: AuthType where
  "USE_GEMINI = ''gemini-api-key''"

text \<open>
  Modelled from the spec: the constant \<^verbatim>\<open>DEFAULT_QWEN_MODEL\<close> of \<^verbatim>\<open>config/models.ts\<close>,
  which is not among the sources: the fixed, named default identifier of the built-in
  provider-type. The registry's test \<^verbatim>\<open>should return coder-model for qwen-oauth\<close> fixes
  its value, since the definition stored under a key carries that key as its identifier.
\<close>

definition DEFAULT_QWEN_MODEL :: string where
  "DEFAULT_QWEN_MODEL = ''coder-model''"

record ModelCapabilities =
  vision :: "bool option"

text \<open>
  The value of a property that an object has: \<^verbatim>\<open>undefined\<close>, \<^verbatim>\<open>null\<close> or a value of its
  declared type. A field of \<^verbatim>\<open>ModelGenerationConfig\<close> is \<open>None\<close> when the object has no
  such property and \<open>Some v\<close> when it has the property with the value \<open>v\<close>; an object
  literal \<^verbatim>\<open>{ top_p: undefined }\<close> has \<open>top_p = Some Undefined\<close>.
\<close>

datatype 'a jsvalue = Undefined | Null | Value 'a

record ModelGenerationConfig =
  temperature :: "real jsvalue option"
  top_p :: "real jsvalue option"
  top_k :: "real jsvalue option"
  max_tokens :: "real jsvalue option"
  presence_penalty :: "real jsvalue option"
  frequency_penalty :: "real jsvalue option"
  repetition_penalty :: "real jsvalue option"
  timeout :: "real jsvalue option"
  maxRetries :: "real jsvalue option"
  disableCacheControl :: "bool jsvalue option"

text \<open>
  \<^verbatim>\<open>ModelConfig\<close>. The interface declares \<^verbatim>\<open>id: string\<close>, but the configuration is
  parsed data and \<^verbatim>\<open>validateModelConfig\<close> tests \<^verbatim>\<open>!config.id\<close>, so a missing
  identifier is part of the input: \<open>mc_id\<close> is optional here.
\<close>

record ModelConfig =
  mc_id :: "string option"
  mc_name :: "string option"
  mc_description :: "string option"
  mc_envKey :: "string option"
  mc_baseUrl :: "string option"
  mc_capabilities :: "ModelCapabilities option"
  mc_generationConfig :: "ModelGenerationConfig option"

text \<open>\<^verbatim>\<open>Object.entries(modelProvidersConfig)\<close>: the keys with their model lists, in order.\<close>

type_synonym ModelProvidersConfig = "(string \<times> ModelConfig list) list"

text \<open>
  What a lookup \<^verbatim>\<open>DEFAULT_BASE_URLS[authType]\<close> can give besides \<^verbatim>\<open>undefined\<close>: a string
  of the table, or the member of that name which the table, an object literal,
  inherits from \<^verbatim>\<open>Object.prototype\<close> (a function or an object, never a string). The
  resolved \<^verbatim>\<open>baseUrl\<close> is declared a string; at run time it is one of these.
\<close>

datatype propertyValue = StringValue string | InheritedMember string

record ResolvedModelConfig =
  rm_id :: string
  rm_authType :: AuthType
  rm_name :: string
  rm_description :: "string option"
  rm_envKey :: "string option"
  rm_baseUrl :: propertyValue
  rm_capabilities :: ModelCapabilities
  rm_generationConfig :: ModelGenerationConfig

record AvailableModel =
  am_id :: string
  am_label :: string
  am_description :: "string option"
  am_capabilities :: "ModelCapabilities option"
  am_authType :: AuthType
  am_isVision :: "bool option"

datatype SelectionSource =
  DEFAULT | ENVIRONMENT | SETTINGS | PROGRAMMATIC_OVERRIDE | USER_MANUAL

record CurrentModelInfo =
  cmi_authType :: AuthType
  cmi_modelId :: string
  cmi_model :: ResolvedModelConfig
  cmi_selectionSource :: SelectionSource

definition DEFAULT_GENERATION_CONFIG :: ModelGenerationConfig where
  "DEFAULT_GENERATION_CONFIG =
     \<lparr>temperature = Some (Value 0.7), top_p = Some (Value 0.9), top_k = None,
      max_tokens = Some (Value 4096),
      presence_penalty = None, frequency_penalty = None, repetition_penalty = None,
      timeout = Some (Value 60000), maxRetries = Some (Value 3), disableCacheControl = None\<rparr>"

text \<open>
  The names of the members of \<^verbatim>\<open>Object.prototype\<close>, which every object literal inherits.
  Each of them is a function or an object, so it is truthy.
\<close>

definition Object_prototype_members :: "string list" where
  "Object_prototype_members =
     [''constructor'', ''hasOwnProperty'', ''isPrototypeOf'', ''propertyIsEnumerable'',
      ''toLocaleString'', ''toString'', ''valueOf'', ''__proto__'', ''__defineGetter__'',
      ''__defineSetter__'', ''__lookupGetter__'', ''__lookupSetter__'']"

text \<open>
  \<^verbatim>\<open>DEFAULT_BASE_URLS[authType]\<close>: the table's own two properties first, then the
  inherited members; \<open>None\<close> is \<^verbatim>\<open>undefined\<close>.
\<close>

definition DEFAULT_BASE_URLS :: "AuthType \<Rightarrow> propertyValue option" where
  "DEFAULT_BASE_URLS a =
     (if a = ''qwen-oauth''
        then Some (StringValue ''https://dashscope.aliyuncs.com/compatible-mode/v1'')
      else if a = ''openai'' then Some (StringValue ''https://api.openai.com/v1'')
      else if a \<in> set Object_prototype_members then Some (InheritedMember a)
      else None)"

subsection \<open>The errors thrown\<close>

datatype error =
    MissingId AuthType
      \<comment> \<open>\<^verbatim>\<open>Model config in authType '...' missing required field: id\<close>\<close>
  | ModelNotFound string AuthType
      \<comment> \<open>\<^verbatim>\<open>Model '...' not found for authType '...'\<close>\<close>
  | NoModelSelected
      \<comment> \<open>\<^verbatim>\<open>No model selected\<close>\<close>
  | CurrentModelNotFound string AuthType
      \<comment> \<open>\<^verbatim>\<open>Current model '...' not found for authType '...'\<close>\<close>
  | CallbackError string
      \<comment> \<open>whatever the change callback threw\<close>

subsection \<open>modelRegistry.ts\<close>

definition QWEN_OAUTH_MODELS :: "ModelConfig list" where
  "QWEN_OAUTH_MODELS =
     [\<lparr>mc_id = Some ''coder-model'',
       mc_name = Some ''Qwen Coder'',
       mc_description = Some ''The latest Qwen Coder model from Alibaba Cloud ModelStudio (version: qwen3-coder-plus-2025-09-23)'',
       mc_envKey = None,
       mc_baseUrl = None,
       mc_capabilities = Some \<lparr>vision = Some False\<rparr>,
       mc_generationConfig = Some
         \<lparr>temperature = Some (Value 0.7), top_p = Some (Value 0.9), top_k = None,
          max_tokens = Some (Value 8192),
          presence_penalty = None, frequency_penalty = None, repetition_penalty = None,
          timeout = Some (Value 60000), maxRetries = Some (Value 3),
          disableCacheControl = None\<rparr>\<rparr>,
      \<lparr>mc_id = Some ''vision-model'',
       mc_name = Some ''Qwen Vision'',
       mc_description = Some ''The latest Qwen Vision model from Alibaba Cloud ModelStudio (version: qwen3-vl-plus-2025-09-23)'',
       mc_envKey = None,
       mc_baseUrl = None,
       mc_capabilities = Some \<lparr>vision = Some True\<rparr>,
       mc_generationConfig = Some
         \<lparr>temperature = Some (Value 0.7), top_p = Some (Value 0.9), top_k = None,
          max_tokens = Some (Value 8192),
          presence_penalty = None, frequency_penalty = None, repetition_penalty = None,
          timeout = Some (Value 60000), maxRetries = Some (Value 3),
          disableCacheControl = None\<rparr>\<rparr>]"

record ModelRegistry =
  modelsByAuthType :: "(AuthType \<times> (string \<times> ResolvedModelConfig) list) list"
  modelIdToAuthTypes :: "(string \<times> AuthType list) list"

text \<open>\<^verbatim>\<open>if (!config.id) throw\<close>: a missing and an empty identifier are both falsy.\<close>

definition validateModelConfig :: "ModelConfig \<Rightarrow> AuthType \<Rightarrow> error + unit" where
  "validateModelConfig config authType =
     (case mc_id config of
        None \<Rightarrow> Inl (MissingId authType)
      | Some i \<Rightarrow> if i = [] then Inl (MissingId authType) else Inr ())"

text \<open>
  \<^verbatim>\<open>{ ...DEFAULT_GENERATION_CONFIG, ...config }\<close>: every property present in
  \<^verbatim>\<open>config\<close> replaces the default's, every other property of the default stays.
\<close>

definition spread :: "'a option \<Rightarrow> 'a option \<Rightarrow> 'a option" where
  "spread d c = (case c of None \<Rightarrow> d | Some v \<Rightarrow> Some v)"

definition mergeGenerationConfig :: "ModelGenerationConfig option \<Rightarrow> ModelGenerationConfig" where
  "mergeGenerationConfig config =
     (case config of
        None \<Rightarrow> DEFAULT_GENERATION_CONFIG
      | Some c \<Rightarrow>
          \<lparr>temperature = spread (temperature DEFAULT_GENERATION_CONFIG) (temperature c),
           top_p = spread (top_p DEFAULT_GENERATION_CONFIG) (top_p c),
           top_k = spread (top_k DEFAULT_GENERATION_CONFIG) (top_k c),
           max_tokens = spread (max_tokens DEFAULT_GENERATION_CONFIG) (max_tokens c),
           presence_penalty =
             spread (presence_penalty DEFAULT_GENERATION_CONFIG) (presence_penalty c),
           frequency_penalty =
             spread (frequency_penalty DEFAULT_GENERATION_CONFIG) (frequency_penalty c),
           repetition_penalty =
             spread (repetition_penalty DEFAULT_GENERATION_CONFIG) (repetition_penalty c),
           timeout = spread (timeout DEFAULT_GENERATION_CONFIG) (timeout c),
           maxRetries = spread (maxRetries DEFAULT_GENERATION_CONFIG) (maxRetries c),
           disableCacheControl =
             spread (disableCacheControl DEFAULT_GENERATION_CONFIG) (disableCacheControl c)\<rparr>)"

text \<open>\<^verbatim>\<open>a || b\<close> on an optional string: \<^verbatim>\<open>undefined\<close> and \<^verbatim>\<open>''\<close> are falsy.\<close>

definition orElse :: "string option \<Rightarrow> string \<Rightarrow> string" where
  "orElse a b = (case a of None \<Rightarrow> b | Some s \<Rightarrow> if s = [] then b else s)"

text \<open>
  \<^verbatim>\<open>DEFAULT_BASE_URLS[authType] || ''\<close>: \<^verbatim>\<open>undefined\<close> and the empty string are falsy, an
  inherited member is not.
\<close>

definition orEmpty :: "propertyValue option \<Rightarrow> propertyValue" where
  "orEmpty v =
     (case v of
        None \<Rightarrow> StringValue []
      | Some (StringValue s) \<Rightarrow> StringValue s
      | Some (InheritedMember k) \<Rightarrow> InheritedMember k)"

definition resolveModelConfig :: "ModelConfig \<Rightarrow> AuthType \<Rightarrow> error + ResolvedModelConfig" where
  "resolveModelConfig config authType =
     (case validateModelConfig config authType of
        Inl e \<Rightarrow> Inl e
      | Inr _ \<Rightarrow>
          (let defaultBaseUrl = orEmpty (DEFAULT_BASE_URLS authType) in
           Inr \<lparr>rm_id = the (mc_id config),
                rm_authType = authType,
                rm_name = orElse (mc_name config) (the (mc_id config)),
                rm_description = mc_description config,
                rm_envKey = mc_envKey config,
                rm_baseUrl =
                  (case mc_baseUrl config of
                     None \<Rightarrow> defaultBaseUrl
                   | Some s \<Rightarrow> if s = [] then defaultBaseUrl else StringValue s),
                rm_capabilities =
                  (case mc_capabilities config of None \<Rightarrow> \<lparr>vision = None\<rparr> | Some c \<Rightarrow> c),
                rm_generationConfig = mergeGenerationConfig (mc_generationConfig config)\<rparr>))"

text \<open>\<^verbatim>\<open>this.modelIdToAuthTypes.get(id) || []\<close>: an array is never falsy.\<close>

definition getOrEmpty :: "(string \<times> AuthType list) list \<Rightarrow> string \<Rightarrow> AuthType list" where
  "getOrEmpty idx modelId = (case map_of idx modelId of None \<Rightarrow> [] | Some l \<Rightarrow> l)"

text \<open>
  The loop of \<^verbatim>\<open>registerAuthTypeModels\<close>, over the new \<^verbatim>\<open>modelMap\<close> and the
  registry's reverse index. A throw of \<^verbatim>\<open>resolveModelConfig\<close> leaves the loop.
\<close>

fun registerModels ::
  "AuthType \<Rightarrow> ModelConfig list \<Rightarrow>
   (string \<times> ResolvedModelConfig) list \<Rightarrow> (string \<times> AuthType list) list \<Rightarrow>
   error + ((string \<times> ResolvedModelConfig) list \<times> (string \<times> AuthType list) list)" where
  "registerModels authType [] modelMap idx = Inr (modelMap, idx)"
| "registerModels authType (config # models) modelMap idx =
     (case resolveModelConfig config authType of
        Inl e \<Rightarrow> Inl e
      | Inr resolved \<Rightarrow>
          (let existingAuthTypes = getOrEmpty idx (rm_id resolved)
           in registerModels authType models
                (AList.update (rm_id resolved) resolved modelMap)
                (AList.update (rm_id resolved) (existingAuthTypes @ [authType]) idx)))"

definition registerAuthTypeModels ::
  "ModelRegistry \<Rightarrow> AuthType \<Rightarrow> ModelConfig list \<Rightarrow> error + ModelRegistry" where
  "registerAuthTypeModels reg authType models =
     (case registerModels authType models [] (modelIdToAuthTypes reg) of
        Inl e \<Rightarrow> Inl e
      | Inr (modelMap, idx) \<Rightarrow>
          Inr \<lparr>modelsByAuthType = AList.update authType modelMap (modelsByAuthType reg),
               modelIdToAuthTypes = idx\<rparr>)"

text \<open>The loop of the constructor over \<^verbatim>\<open>Object.entries(modelProvidersConfig)\<close>.\<close>

fun registerEntries :: "ModelProvidersConfig \<Rightarrow> ModelRegistry \<Rightarrow> error + ModelRegistry" where
  "registerEntries [] reg = Inr reg"
| "registerEntries ((authType, models) # rest) reg =
     (if authType = QWEN_OAUTH then registerEntries rest reg
      else (case registerAuthTypeModels reg authType models of
              Inl e \<Rightarrow> Inl e
            | Inr reg' \<Rightarrow> registerEntries rest reg'))"

definition ModelRegistry_constructor :: "ModelProvidersConfig option \<Rightarrow> error + ModelRegistry" where
  "ModelRegistry_constructor modelProvidersConfig =
     (case registerAuthTypeModels \<lparr>modelsByAuthType = [], modelIdToAuthTypes = []\<rparr>
             QWEN_OAUTH QWEN_OAUTH_MODELS of
        Inl e \<Rightarrow> Inl e
      | Inr reg \<Rightarrow>
          (case modelProvidersConfig of
             None \<Rightarrow> Inr reg
           | Some entries \<Rightarrow> registerEntries entries reg))"

definition getModelsForAuthType :: "ModelRegistry \<Rightarrow> AuthType \<Rightarrow> AvailableModel list" where
  "getModelsForAuthType reg authType =
     (case map_of (modelsByAuthType reg) authType of
        None \<Rightarrow> []
      | Some models \<Rightarrow>
          map (\<lambda>model.
                 \<lparr>am_id = rm_id model,
                  am_label = rm_name model,
                  am_description = rm_description model,
                  am_capabilities = Some (rm_capabilities model),
                  am_authType = rm_authType model,
                  am_isVision =
                    Some (case vision (rm_capabilities model) of None \<Rightarrow> False | Some b \<Rightarrow> b)\<rparr>)
              (map snd models))"

definition getAvailableAuthTypes :: "ModelRegistry \<Rightarrow> AuthType list" where
  "getAvailableAuthTypes reg = map fst (modelsByAuthType reg)"

definition getModel :: "ModelRegistry \<Rightarrow> AuthType \<Rightarrow> string \<Rightarrow> ResolvedModelConfig option" where
  "getModel reg authType modelId =
     (case map_of (modelsByAuthType reg) authType of
        None \<Rightarrow> None
      | Some models \<Rightarrow> map_of models modelId)"

definition hasModel :: "ModelRegistry \<Rightarrow> AuthType \<Rightarrow> string \<Rightarrow> bool" where
  "hasModel reg authType modelId =
     (case map_of (modelsByAuthType reg) authType of
        None \<Rightarrow> False
      | Some models \<Rightarrow> map_of models modelId \<noteq> None)"

definition getFirstModelForAuthType :: "ModelRegistry \<Rightarrow> AuthType \<Rightarrow> ResolvedModelConfig option" where
  "getFirstModelForAuthType reg authType =
     (case map_of (modelsByAuthType reg) authType of
        None \<Rightarrow> None
      | Some models \<Rightarrow> (case map snd models of [] \<Rightarrow> None | m # _ \<Rightarrow> Some m))"

definition getDefaultModelForAuthType :: "ModelRegistry \<Rightarrow> AuthType \<Rightarrow> ResolvedModelConfig option" where
  "getDefaultModelForAuthType reg authType =
     (if authType = QWEN_OAUTH then getModel reg authType DEFAULT_QWEN_MODEL
      else getFirstModelForAuthType reg authType)"

definition hasAuthType :: "ModelRegistry \<Rightarrow> AuthType \<Rightarrow> bool" where
  "hasAuthType reg authType =
     (case map_of (modelsByAuthType reg) authType of
        None \<Rightarrow> False
      | Some models \<Rightarrow> length models > 0)"

definition getTotalModelCount :: "ModelRegistry \<Rightarrow> nat" where
  "getTotalModelCount reg = fold (\<lambda>models count. count + length models) (map snd (modelsByAuthType reg)) 0"

text \<open>
  \<^verbatim>\<open>findAuthTypesForModel\<close>. \<^verbatim>\<open>!preferredAuthType\<close> holds for a preferred provider-type
  that is not passed and for the empty string.
\<close>

definition findAuthTypesForModel :: "ModelRegistry \<Rightarrow> string \<Rightarrow> AuthType option \<Rightarrow> AuthType list" where
  "findAuthTypesForModel reg modelId preferredAuthType =
     (let authTypes = getOrEmpty (modelIdToAuthTypes reg) modelId
      in case preferredAuthType of
           None \<Rightarrow> authTypes
         | Some p \<Rightarrow>
             if p = [] \<or> p \<notin> set authTypes then authTypes
             else p # filter (\<lambda>t. t \<noteq> p) authTypes)"

subsection \<open>modelSelectionManager.ts\<close>

text \<open>
  The change callback is called with the provider-type and the resolved definition and
  either returns (\<open>None\<close>) or throws (\<open>Some\<close> of what it threw).
\<close>

type_synonym ModelChangeCallback = "AuthType \<Rightarrow> ResolvedModelConfig \<Rightarrow> string option"

record ModelSelectionManagerOptions =
  initialAuthType :: "AuthType option"
  initialModelId :: "string option"
  opt_onModelChange :: "ModelChangeCallback option"
  modelProvidersConfig :: "ModelProvidersConfig option"

record ModelSelectionManager =
  modelRegistry :: ModelRegistry
  currentAuthType :: AuthType
  currentModelId :: string
  selectionSource :: SelectionSource
  selectionTimestamp :: int
  onModelChange :: "ModelChangeCallback option"

text \<open>\<^verbatim>\<open>process.env\<close> is the parameter \<open>env\<close>.\<close>

definition getModelFromEnvironment :: "(string \<Rightarrow> string option) \<Rightarrow> ModelSelectionManager \<Rightarrow> string option" where
  "getModelFromEnvironment env m =
     (if currentAuthType m = USE_OPENAI then env ''OPENAI_MODEL'' else None)"

definition initializeDefaultSelection ::
  "(string \<Rightarrow> string option) \<Rightarrow> ModelSelectionManager \<Rightarrow> ModelSelectionManager" where
  "initializeDefaultSelection env m =
     (if currentModelId m \<noteq> [] \<and> hasModel (modelRegistry m) (currentAuthType m) (currentModelId m)
      then m\<lparr>selectionSource := SETTINGS\<rparr>
      else
        (let envModel = getModelFromEnvironment env m in
         if envModel \<noteq> None \<and> the envModel \<noteq> [] \<and>
            hasModel (modelRegistry m) (currentAuthType m) (the envModel)
         then m\<lparr>currentModelId := the envModel, selectionSource := ENVIRONMENT\<rparr>
         else
           (case getDefaultModelForAuthType (modelRegistry m) (currentAuthType m) of
              Some defaultModel \<Rightarrow>
                m\<lparr>currentModelId := rm_id defaultModel, selectionSource := DEFAULT\<rparr>
            | None \<Rightarrow> m)))"

text \<open>
  The constructor; \<open>now\<close> is the value of \<^verbatim>\<open>Date.now()\<close> in the field initialiser.
  A throw of the registry's constructor leaves no manager.
\<close>

definition ModelSelectionManager_constructor ::
  "ModelSelectionManagerOptions \<Rightarrow> (string \<Rightarrow> string option) \<Rightarrow> int \<Rightarrow>
   error + ModelSelectionManager" where
  "ModelSelectionManager_constructor options env now =
     (case ModelRegistry_constructor (modelProvidersConfig options) of
        Inl e \<Rightarrow> Inl e
      | Inr reg \<Rightarrow>
          Inr (initializeDefaultSelection env
                 \<lparr>modelRegistry = reg,
                  currentAuthType = orElse (initialAuthType options) QWEN_OAUTH,
                  currentModelId = orElse (initialModelId options) [],
                  selectionSource = DEFAULT,
                  selectionTimestamp = now,
                  onModelChange = opt_onModelChange options\<rparr>))"

text \<open>
  \<^verbatim>\<open>switchModel\<close> returns what the promise settles to together with the manager's
  state afterwards; \<open>now\<close> is the value of \<^verbatim>\<open>Date.now()\<close> inside the \<^verbatim>\<open>try\<close>.
\<close>

definition switchModel ::
  "ModelSelectionManager \<Rightarrow> string \<Rightarrow> SelectionSource \<Rightarrow> int \<Rightarrow>
   (error + unit) \<times> ModelSelectionManager" where
  "switchModel m modelId source now =
     (case getModel (modelRegistry m) (currentAuthType m) modelId of
        None \<Rightarrow> (Inl (ModelNotFound modelId (currentAuthType m)), m)
      | Some model \<Rightarrow>
          (let previousModelId = currentModelId m;
               m1 = m\<lparr>currentModelId := modelId, selectionSource := source,
                      selectionTimestamp := now\<rparr>
           in case onModelChange m1 of
                None \<Rightarrow> (Inr (), m1)
              | Some callback \<Rightarrow>
                  (case callback (currentAuthType m1) model of
                     None \<Rightarrow> (Inr (), m1)
                   | Some err \<Rightarrow>
                       (Inl (CallbackError err), m1\<lparr>currentModelId := previousModelId\<rparr>))))"

definition getAvailableModels :: "ModelSelectionManager \<Rightarrow> AvailableModel list" where
  "getAvailableModels m = getModelsForAuthType (modelRegistry m) (currentAuthType m)"

definition getCurrentAuthType :: "ModelSelectionManager \<Rightarrow> AuthType" where
  "getCurrentAuthType m = currentAuthType m"

definition getCurrentModelId :: "ModelSelectionManager \<Rightarrow> string" where
  "getCurrentModelId m = currentModelId m"

definition getCurrentModel :: "ModelSelectionManager \<Rightarrow> error + CurrentModelInfo" where
  "getCurrentModel m =
     (if currentModelId m = [] then Inl NoModelSelected
      else (case getModel (modelRegistry m) (currentAuthType m) (currentModelId m) of
              None \<Rightarrow> Inl (CurrentModelNotFound (currentModelId m) (currentAuthType m))
            | Some model \<Rightarrow>
                Inr \<lparr>cmi_authType = currentAuthType m,
                     cmi_modelId = currentModelId m,
                     cmi_model = model,
                     cmi_selectionSource = selectionSource m\<rparr>))"

definition getSelectionSource :: "ModelSelectionManager \<Rightarrow> SelectionSource" where
  "getSelectionSource m = selectionSource m"

definition getSelectionTimestamp :: "ModelSelectionManager \<Rightarrow> int" where
  "getSelectionTimestamp m = selectionTimestamp m"

definition setOnModelChange :: "ModelSelectionManager \<Rightarrow> ModelChangeCallback \<Rightarrow> ModelSelectionManager" where
  "setOnModelChange m callback = m\<lparr>onModelChange := Some callback\<rparr>"

subsection \<open>Predicates of the statements\<close>

text \<open>A model definition that \<^verbatim>\<open>validateModelConfig\<close> rejects: identifier missing or empty.\<close>

definition badId :: "ModelConfig \<Rightarrow> bool" where
  "badId c \<longleftrightarrow> mc_id c = None \<or> mc_id c = Some []"

text \<open>
  An entry of the providers configuration that makes the constructor throw: its key is
  not the built-in provider-type and one of its model definitions is rejected.
\<close>

definition offending :: "string \<times> ModelConfig list \<Rightarrow> bool" where
  "offending e \<longleftrightarrow> fst e \<noteq> QWEN_OAUTH \<and> (\<exists>c\<in>set (snd e). badId c)"

text \<open>The reverse index lists, for an identifier, the provider-types that have it.\<close>

definition consistent :: "ModelRegistry \<Rightarrow> bool" where
  "consistent reg \<longleftrightarrow>
     (\<forall>a i. a \<in> set (getOrEmpty (modelIdToAuthTypes reg) i) \<longleftrightarrow> hasModel reg a i)"

subsection \<open>Example inputs\<close>

text \<open>The configuration of the manager's tests, and a change callback that always throws.\<close>

definition gpt_4_turbo :: ModelConfig where
  "gpt_4_turbo =
     \<lparr>mc_id = Some ''gpt-4-turbo'', mc_name = Some ''GPT-4 Turbo'', mc_description = None,
      mc_envKey = None, mc_baseUrl = Some ''https://api.openai.com/v1'',
      mc_capabilities = None, mc_generationConfig = None\<rparr>"

definition gpt_3_5_turbo :: ModelConfig where
  "gpt_3_5_turbo =
     \<lparr>mc_id = Some ''gpt-3.5-turbo'', mc_name = Some ''GPT-3.5 Turbo'', mc_description = None,
      mc_envKey = None, mc_baseUrl = Some ''https://api.openai.com/v1'',
      mc_capabilities = None, mc_generationConfig = None\<rparr>"

definition deepseek_coder :: ModelConfig where
  "deepseek_coder =
     \<lparr>mc_id = Some ''deepseek-coder'', mc_name = Some ''DeepSeek Coder'', mc_description = None,
      mc_envKey = None, mc_baseUrl = Some ''https://api.deepseek.com/v1'',
      mc_capabilities = None, mc_generationConfig = None\<rparr>"

definition example_config :: ModelProvidersConfig where
  "example_config = [(''openai'', [gpt_4_turbo, gpt_3_5_turbo, deepseek_coder])]"

definition failing_callback :: ModelChangeCallback where
  "failing_callback authType model = Some ''reconnect failed''"

definition example_options :: ModelSelectionManagerOptions where
  "example_options =
     \<lparr>initialAuthType = Some USE_OPENAI, initialModelId = Some ''gpt-4-turbo'',
      opt_onModelChange = Some failing_callback, modelProvidersConfig = Some example_config\<rparr>"

text \<open>An environment without variables, and one that sets \<^verbatim>\<open>OPENAI_MODEL\<close>.\<close>

definition empty_env :: "string \<Rightarrow> string option" where
  "empty_env name = None"

definition openai_env :: "string \<Rightarrow> string option" where
  "openai_env name = (if name = ''OPENAI_MODEL'' then Some ''gpt-3.5-turbo'' else None)"

definition example_manager :: ModelSelectionManager where
  "example_manager = projr (ModelSelectionManager_constructor example_options empty_env 1000)"

text \<open>The registry before and after the constructor's first registration.\<close>

definition empty_registry :: ModelRegistry where
  "empty_registry = \<lparr>modelsByAuthType = [], modelIdToAuthTypes = []\<rparr>"

definition builtin_registry :: ModelRegistry where
  "builtin_registry = projr (registerAuthTypeModels empty_registry QWEN_OAUTH QWEN_OAUTH_MODELS)"

text \<open>The configuration of the test \<^verbatim>\<open>should ignore qwen-oauth models in config\<close>.\<close>

definition tamper_config :: ModelProvidersConfig where
  "tamper_config =
     [(''qwen-oauth'',
       [\<lparr>mc_id = Some ''custom-qwen'', mc_name = Some ''Custom Qwen'', mc_description = None,
          mc_envKey = None, mc_baseUrl = None, mc_capabilities = None,
          mc_generationConfig = None\<rparr>])]"

text \<open>The model definition of the test \<^verbatim>\<open>should throw error for model without id\<close>.\<close>

definition no_id :: ModelConfig where
  "no_id = \<lparr>mc_id = Some [], mc_name = Some ''No ID'', mc_description = None, mc_envKey = None,
            mc_baseUrl = None, mc_capabilities = None, mc_generationConfig = None\<rparr>"

text \<open>
  A registry value in which the built-in provider-type lists \<^verbatim>\<open>vision-model\<close> first.
  The constructor never returns it; it separates the two ways of choosing a default.
\<close>

definition reordered_registry :: ModelRegistry where
  "reordered_registry =
     \<lparr>modelsByAuthType =
        [(''qwen-oauth'',
          rev (the (map_of (modelsByAuthType builtin_registry) ''qwen-oauth'')))],
      modelIdToAuthTypes = modelIdToAuthTypes builtin_registry\<rparr>"

text \<open>The configuration of the reverse-lookup tests: one identifier under two provider-types.\<close>

definition shared_model :: ModelConfig where
  "shared_model =
     \<lparr>mc_id = Some ''shared-model'', mc_name = Some ''Shared'', mc_description = None,
      mc_envKey = None, mc_baseUrl = None, mc_capabilities = None,
      mc_generationConfig = None\<rparr>"

definition shared_config :: ModelProvidersConfig where
  "shared_config = [(''openai'', [shared_model]), (''gemini-api-key'', [shared_model])]"

definition shared_registry :: ModelRegistry where
  "shared_registry = projr (ModelRegistry_constructor (Some shared_config))"

text \<open>
  A model definition with its own base URL and one generation parameter; and one that
  passes the empty string as name and as base URL.
\<close>

definition deepseek :: ModelConfig where
  "deepseek =
     \<lparr>mc_id = Some ''deepseek'', mc_name = Some ''DeepSeek'', mc_description = None,
      mc_envKey = None, mc_baseUrl = Some ''https://api.deepseek.com/v1'',
      mc_capabilities = None,
      mc_generationConfig = Some
        \<lparr>temperature = Some (Value 0.8), top_p = None, top_k = None, max_tokens = None,
         presence_penalty = None, frequency_penalty = None, repetition_penalty = None,
         timeout = None, maxRetries = None, disableCacheControl = None\<rparr>\<rparr>"

text \<open>The same with \<^verbatim>\<open>top_p: undefined\<close> written out in the generation parameters.\<close>

definition deepseek_undefined_top_p :: ModelConfig where
  "deepseek_undefined_top_p =
     deepseek\<lparr>mc_generationConfig := Some
        \<lparr>temperature = Some (Value 0.8), top_p = Some Undefined, top_k = None,
         max_tokens = None,
         presence_penalty = None, frequency_penalty = None, repetition_penalty = None,
         timeout = None, maxRetries = None, disableCacheControl = None\<rparr>\<rparr>"

definition blank_overrides :: ModelConfig where
  "blank_overrides =
     \<lparr>mc_id = Some ''gpt-4'', mc_name = Some [], mc_description = None,
      mc_envKey = None, mc_baseUrl = Some [], mc_capabilities = None,
      mc_generationConfig = None\<rparr>"

text \<open>A manager over a provider-type without models, and one with a stale identifier.\<close>

definition unselected_options :: ModelSelectionManagerOptions where
  "unselected_options =
     \<lparr>initialAuthType = Some USE_OPENAI, initialModelId = None, opt_onModelChange = None,
      modelProvidersConfig = Some [(''openai'', [])]\<rparr>"

definition unselected_manager :: ModelSelectionManager where
  "unselected_manager =
     projr (ModelSelectionManager_constructor unselected_options empty_env 1000)"

definition stale_options :: ModelSelectionManagerOptions where
  "stale_options =
     \<lparr>initialAuthType = Some USE_OPENAI, initialModelId = Some ''non-existent'',
      opt_onModelChange = None, modelProvidersConfig = Some [(''openai'', [])]\<rparr>"

definition stale_manager :: ModelSelectionManager where
  "stale_manager = projr (ModelSelectionManager_constructor stale_options empty_env 1000)"

text \<open>Options with an identifier that the registry lacks, for the environment to replace.\<close>

definition env_options :: ModelSelectionManagerOptions where
  "env_options =
     \<lparr>initialAuthType = Some USE_OPENAI, initialModelId = Some ''non-existent'',
      opt_onModelChange = None, modelProvidersConfig = Some example_config\<rparr>"

text \<open>No options at all.\<close>

definition no_options :: ModelSelectionManagerOptions where
  "no_options =
     \<lparr>initialAuthType = None, initialModelId = None, opt_onModelChange = None,
      modelProvidersConfig = None\<rparr>"

section \<open>Registration\<close>

lemma hasModel_getModel: "hasModel reg a i \<longleftrightarrow> getModel reg a i \<noteq> None"
  by (simp add: hasModel_def getModel_def split: option.splits)

lemma resolve_Inl: "resolveModelConfig c a = Inl e \<longleftrightarrow> (mc_id c = None \<or> mc_id c = Some []) \<and> e = MissingId a"
  by (auto simp: resolveModelConfig_def validateModelConfig_def Let_def split: option.splits sum.splits)

lemma resolve_Inr_id: "resolveModelConfig c a = Inr r \<Longrightarrow> mc_id c = Some (rm_id r) \<and> rm_id r \<noteq> []"
  by (auto simp: resolveModelConfig_def validateModelConfig_def Let_def split: option.splits sum.splits if_splits)

lemma resolve_Inr_authType: "resolveModelConfig c a = Inr r \<Longrightarrow> rm_authType r = a"
  by (auto simp: resolveModelConfig_def validateModelConfig_def Let_def split: option.splits sum.splits if_splits)

lemma registerModels_Inl:
  "registerModels a cs mm idx = Inl e \<longleftrightarrow> (\<exists>c\<in>set cs. badId c) \<and> e = MissingId a"
proof (induction cs arbitrary: mm idx)
  case Nil
  then show ?case by simp
next
  case (Cons c cs)
  show ?case
  proof (cases "resolveModelConfig c a")
    case (Inl e')
    then show ?thesis using resolve_Inl[of c a e'] by (auto simp: badId_def)
  next
    case (Inr r)
    then have "\<not> badId c" using resolve_Inr_id[of c a r] by (auto simp: badId_def)
    then show ?thesis using Inr Cons.IH by (simp add: Let_def)
  qed
qed

lemma update_head_key: "\<exists>v rest. AList.update k w (p # ps) = (fst p, v) # rest"
  by (cases p) auto

lemma registerModels_head:
  "registerModels a cs (p # ps) idx = Inr (mm', idx') \<Longrightarrow> \<exists>v rest. mm' = (fst p, v) # rest"
proof (induction cs arbitrary: p ps idx)
  case Nil
  then show ?case by (cases p) auto
next
  case (Cons c cs)
  from Cons.prems obtain r where r: "resolveModelConfig c a = Inr r"
    by (cases "resolveModelConfig c a") auto
  obtain v rest where u: "AList.update (rm_id r) r (p # ps) = (fst p, v) # rest"
    using update_head_key[of "rm_id r" r p ps] by auto
  from Cons.prems r u
  have "registerModels a cs ((fst p, v) # rest) (AList.update (rm_id r) (getOrEmpty idx (rm_id r) @ [a]) idx) = Inr (mm', idx')"
    by (simp add: Let_def)
  from Cons.IH[OF this] show ?case by simp
qed

lemma registerModels_first:
  assumes "registerModels a (c # cs) [] idx = Inr (mm', idx')"
  shows "\<exists>v rest. mm' = (the (mc_id c), v) # rest"
proof -
  from assms obtain r where r: "resolveModelConfig c a = Inr r"
    by (cases "resolveModelConfig c a") auto
  with assms have "registerModels a cs [(rm_id r, r)] (AList.update (rm_id r) (getOrEmpty idx (rm_id r) @ [a]) idx) = Inr (mm', idx')"
    by (simp add: Let_def)
  from registerModels_head[OF this] resolve_Inr_id[OF r] show ?thesis by simp
qed

lemma registerModels_dom:
  "registerModels a cs mm idx = Inr (mm', idx') \<Longrightarrow>
   (map_of mm' i \<noteq> None) = (map_of mm i \<noteq> None \<or> Some i \<in> mc_id ` set cs)"
proof (induction cs arbitrary: mm idx)
  case Nil
  then show ?case by simp
next
  case (Cons c cs)
  from Cons.prems obtain r where r: "resolveModelConfig c a = Inr r"
    by (cases "resolveModelConfig c a") auto
  from Cons.prems r
  have "registerModels a cs (AList.update (rm_id r) r mm) (AList.update (rm_id r) (getOrEmpty idx (rm_id r) @ [a]) idx) = Inr (mm', idx')"
    by (simp add: Let_def)
  from Cons.IH[OF this] resolve_Inr_id[OF r] show ?case
    by (auto simp: update_conv')
qed

lemma getOrEmpty_update:
  "getOrEmpty (AList.update k v idx) i = (if i = k then v else getOrEmpty idx i)"
  by (simp add: getOrEmpty_def update_conv')

lemma registerModels_index:
  "registerModels a cs mm idx = Inr (mm', idx') \<Longrightarrow>
   getOrEmpty idx' i = getOrEmpty idx i @ replicate (count_list (map mc_id cs) (Some i)) a"
proof (induction cs arbitrary: mm idx)
  case Nil
  then show ?case by simp
next
  case (Cons c cs)
  from Cons.prems obtain r where r: "resolveModelConfig c a = Inr r"
    by (cases "resolveModelConfig c a") auto
  from Cons.prems r
  have "registerModels a cs (AList.update (rm_id r) r mm) (AList.update (rm_id r) (getOrEmpty idx (rm_id r) @ [a]) idx) = Inr (mm', idx')"
    by (simp add: Let_def)
  from Cons.IH[OF this] resolve_Inr_id[OF r] show ?case
    by (auto simp: getOrEmpty_update replicate_app_Cons_same)
qed

lemma registerAuthTypeModels_Inl:
  "registerAuthTypeModels reg a models = Inl e \<longleftrightarrow> (\<exists>c\<in>set models. badId c) \<and> e = MissingId a"
proof (cases "registerModels a models [] (modelIdToAuthTypes reg)")
  case (Inl e')
  then show ?thesis using registerModels_Inl[of a models "[]" "modelIdToAuthTypes reg" e']
    by (auto simp: registerAuthTypeModels_def)
next
  case (Inr p)
  then show ?thesis using registerModels_Inl[of a models "[]" "modelIdToAuthTypes reg" "MissingId a"]
    by (auto simp: registerAuthTypeModels_def split: prod.splits)
qed

lemma registerAuthTypeModels_Inr:
  assumes "registerAuthTypeModels reg a models = Inr reg'"
  obtains mm where
    "registerModels a models [] (modelIdToAuthTypes reg) = Inr (mm, modelIdToAuthTypes reg')"
    "modelsByAuthType reg' = AList.update a mm (modelsByAuthType reg)"
  using assms by (auto simp: registerAuthTypeModels_def split: sum.splits prod.splits)

lemma registerAuthTypeModels_other:
  assumes "registerAuthTypeModels reg a models = Inr reg'" "k \<noteq> a"
  shows "map_of (modelsByAuthType reg') k = map_of (modelsByAuthType reg) k"
  using assms by (auto elim!: registerAuthTypeModels_Inr simp: update_conv')

lemma registerAuthTypeModels_hasModel:
  assumes "registerAuthTypeModels reg a models = Inr reg'"
  shows "hasModel reg' k i \<longleftrightarrow> (if k = a then Some i \<in> mc_id ` set models else hasModel reg k i)"
proof -
  from assms obtain mm where
    mm: "registerModels a models [] (modelIdToAuthTypes reg) = Inr (mm, modelIdToAuthTypes reg')"
    and upd: "modelsByAuthType reg' = AList.update a mm (modelsByAuthType reg)"
    by (rule registerAuthTypeModels_Inr)
  from registerModels_dom[OF mm, of i] upd show ?thesis
    by (simp add: hasModel_def update_conv')
qed

lemma registerAuthTypeModels_index:
  assumes "registerAuthTypeModels reg a models = Inr reg'"
  shows "getOrEmpty (modelIdToAuthTypes reg') i =
         getOrEmpty (modelIdToAuthTypes reg) i @ replicate (count_list (map mc_id models) (Some i)) a"
proof -
  from assms obtain mm where
    mm: "registerModels a models [] (modelIdToAuthTypes reg) = Inr (mm, modelIdToAuthTypes reg')"
    by (rule registerAuthTypeModels_Inr)
  from registerModels_index[OF mm] show ?thesis .
qed

lemma registerAuthTypeModels_consistent:
  assumes r: "registerAuthTypeModels reg a models = Inr reg'"
    and c: "consistent reg"
    and new: "map_of (modelsByAuthType reg) a = None"
  shows "consistent reg'"
proof -
  have no: "\<And>i. \<not> hasModel reg a i" using new by (simp add: hasModel_def)
  have cnt: "\<And>i. (0 < count_list (map mc_id models) (Some i)) = (Some i \<in> mc_id ` set models)"
    by (simp add: count_list_0_iff zero_less_iff_neq_zero)
  show ?thesis
    unfolding consistent_def
  proof (intro allI)
    fix k i
    have "k \<in> set (getOrEmpty (modelIdToAuthTypes reg') i) \<longleftrightarrow>
          k \<in> set (getOrEmpty (modelIdToAuthTypes reg) i) \<or> (k = a \<and> Some i \<in> mc_id ` set models)"
      using registerAuthTypeModels_index[OF r, of i] cnt[of i] by auto
    also have "\<dots> \<longleftrightarrow> hasModel reg k i \<or> (k = a \<and> Some i \<in> mc_id ` set models)"
      using c by (simp add: consistent_def)
    also have "\<dots> \<longleftrightarrow> hasModel reg' k i"
      using registerAuthTypeModels_hasModel[OF r, of k i] no by auto
    finally show "k \<in> set (getOrEmpty (modelIdToAuthTypes reg') i) \<longleftrightarrow> hasModel reg' k i" .
  qed
qed

lemma registerEntries_filter:
  "registerEntries (filter (\<lambda>e. fst e \<noteq> QWEN_OAUTH) cfg) reg = registerEntries cfg reg"
  by (induction cfg reg rule: registerEntries.induct) (auto split: sum.splits)

lemma registerEntries_builtin:
  "registerEntries cfg reg = Inr reg' \<Longrightarrow>
   map_of (modelsByAuthType reg') QWEN_OAUTH = map_of (modelsByAuthType reg) QWEN_OAUTH"
proof (induction cfg reg rule: registerEntries.induct)
  case (1 reg)
  then show ?case by simp
next
  case (2 a models rest reg)
  show ?case
  proof (cases "a = QWEN_OAUTH")
    case True
    with 2 show ?thesis by simp
  next
    case False
    with "2.prems" obtain reg1 where r1: "registerAuthTypeModels reg a models = Inr reg1"
      and rest: "registerEntries rest reg1 = Inr reg'"
      by (auto split: sum.splits)
    from "2.IH"(2)[OF False r1 rest] registerAuthTypeModels_other[OF r1, of QWEN_OAUTH] False
    show ?thesis by simp
  qed
qed

lemma registerEntries_Inl:
  "registerEntries cfg reg = Inl e \<longleftrightarrow>
   (\<exists>pre a models post. cfg = pre @ (a, models) # post \<and> (\<forall>x\<in>set pre. \<not> offending x) \<and>
      offending (a, models) \<and> e = MissingId a)"
proof (induction cfg reg rule: registerEntries.induct)
  case (1 reg)
  then show ?case by simp
next
  case (2 a models rest reg)
  let ?R = "\<lambda>cfg. \<exists>pre a models post. cfg = pre @ (a, models) # post \<and> (\<forall>x\<in>set pre. \<not> offending x) \<and>
      offending (a, models) \<and> e = MissingId a"
  have split_cons: "?R ((a, models) # rest) \<longleftrightarrow>
        (offending (a, models) \<and> e = MissingId a) \<or> (\<not> offending (a, models) \<and> ?R rest)"
  proof
    assume "?R ((a, models) # rest)"
    then obtain pre a' models' post where eq: "(a, models) # rest = pre @ (a', models') # post"
      and pre: "\<forall>x\<in>set pre. \<not> offending x" and off: "offending (a', models')" and e: "e = MissingId a'"
      by blast
    show "(offending (a, models) \<and> e = MissingId a) \<or> (\<not> offending (a, models) \<and> ?R rest)"
    proof (cases pre)
      case Nil
      with eq off e show ?thesis by simp
    next
      case (Cons x xs)
      with eq have "x = (a, models)" "rest = xs @ (a', models') # post" by simp_all
      with pre Cons off e show ?thesis by auto
    qed
  next
    assume "(offending (a, models) \<and> e = MissingId a) \<or> (\<not> offending (a, models) \<and> ?R rest)"
    then show "?R ((a, models) # rest)"
    proof
      assume "offending (a, models) \<and> e = MissingId a"
      then have "(a, models) # rest = [] @ (a, models) # rest \<and> (\<forall>x\<in>set []. \<not> offending x) \<and>
        offending (a, models) \<and> e = MissingId a" by simp
      then show ?thesis by blast
    next
      assume h: "\<not> offending (a, models) \<and> ?R rest"
      then obtain pre a' models' post where eq: "rest = pre @ (a', models') # post"
        and pre: "\<forall>x\<in>set pre. \<not> offending x" and off: "offending (a', models')" and e: "e = MissingId a'"
        by blast
      then have "(a, models) # rest = ((a, models) # pre) @ (a', models') # post \<and>
        (\<forall>x\<in>set ((a, models) # pre). \<not> offending x) \<and> offending (a', models') \<and> e = MissingId a'"
        using h by simp
      then show ?thesis by blast
    qed
  qed
  show ?case
  proof (cases "a = QWEN_OAUTH")
    case True
    then have "\<not> offending (a, models)" by (simp add: offending_def)
    with True "2.IH"(1) split_cons show ?thesis by simp
  next
    case False
    show ?thesis
    proof (cases "registerAuthTypeModels reg a models")
      case (Inl e')
      with registerAuthTypeModels_Inl[of reg a models e'] False
      have "offending (a, models)" "e' = MissingId a" by (auto simp: offending_def)
      with Inl False split_cons show ?thesis by auto
    next
      case (Inr reg1)
      with registerAuthTypeModels_Inl[of reg a models "MissingId a"] False
      have "\<not> offending (a, models)" by (auto simp: offending_def)
      with Inr False "2.IH"(2)[OF False Inr] split_cons show ?thesis by simp
    qed
  qed
qed

section \<open>Evaluation of the examples\<close>

lemmas eval_defs =
  ModelSelectionManager_constructor_def ModelRegistry_constructor_def registerAuthTypeModels_def
  resolveModelConfig_def validateModelConfig_def mergeGenerationConfig_def orElse_def
  orEmpty_def DEFAULT_BASE_URLS_def Object_prototype_members_def QWEN_OAUTH_MODELS_def QWEN_OAUTH_def USE_OPENAI_def DEFAULT_QWEN_MODEL_def
  initializeDefaultSelection_def getModelFromEnvironment_def hasModel_def getModel_def
  getFirstModelForAuthType_def getDefaultModelForAuthType_def getOrEmpty_def spread_def
  DEFAULT_GENERATION_CONFIG_def

lemmas example_defs = example_config_def gpt_4_turbo_def gpt_3_5_turbo_def deepseek_coder_def
  empty_env_def openai_env_def unselected_options_def stale_options_def

lemma example_manager_fields:
  "currentAuthType example_manager = ''openai''"
  "currentModelId example_manager = ''gpt-4-turbo''"
  "selectionSource example_manager = SETTINGS"
  "selectionTimestamp example_manager = 1000"
  "onModelChange example_manager = Some failing_callback"
  "hasModel (modelRegistry example_manager) ''openai'' ''gpt-3.5-turbo''"
  "\<not> hasModel (modelRegistry example_manager) ''openai'' ''non-existent''"
  by (simp_all add: example_manager_def example_options_def example_defs eval_defs)

section \<open>The switch operation\<close>

text \<open>
  C1. A switch to an identifier that the registry has for the current provider-type,
  with a change callback that throws: the promise rejects with what the callback threw,
  the current identifier is again what it was before the call, and the selection source
  and timestamp are those of the attempt. Nothing else of the manager changes.
\<close>

theorem switchModel_callback_failure:
  assumes "getModel (modelRegistry m) (currentAuthType m) modelId = Some model"
    and "onModelChange m = Some callback"
    and "callback (currentAuthType m) model = Some err"
  shows "switchModel m modelId source now =
           (Inl (CallbackError err), m\<lparr>selectionSource := source, selectionTimestamp := now\<rparr>) \<and>
         currentModelId (snd (switchModel m modelId source now)) = currentModelId m \<and>
         selectionSource (snd (switchModel m modelId source now)) = source \<and>
         selectionTimestamp (snd (switchModel m modelId source now)) = now"
  using assms by (simp add: switchModel_def Let_def)

theorem switchModel_callback_failure_witness:
  "hasModel (modelRegistry example_manager) (currentAuthType example_manager) ''gpt-3.5-turbo'' \<and>
   onModelChange example_manager = Some failing_callback \<and>
   fst (switchModel example_manager ''gpt-3.5-turbo'' USER_MANUAL 2000) =
     Inl (CallbackError ''reconnect failed'') \<and>
   currentModelId (snd (switchModel example_manager ''gpt-3.5-turbo'' USER_MANUAL 2000)) =
     ''gpt-4-turbo'' \<and>
   selectionSource (snd (switchModel example_manager ''gpt-3.5-turbo'' USER_MANUAL 2000)) =
     USER_MANUAL \<and>
   selectionTimestamp (snd (switchModel example_manager ''gpt-3.5-turbo'' USER_MANUAL 2000)) = 2000"
proof -
  obtain model where
    model: "getModel (modelRegistry example_manager) (currentAuthType example_manager)
              ''gpt-3.5-turbo'' = Some model"
    using example_manager_fields(6) by (auto simp: hasModel_getModel example_manager_fields(1))
  have cb: "failing_callback (currentAuthType example_manager) model = Some ''reconnect failed''"
    by (simp add: failing_callback_def)
  from switchModel_callback_failure[OF model example_manager_fields(5) cb, of USER_MANUAL 2000]
  show ?thesis
    by (simp add: example_manager_fields)
qed

text \<open>
  C2. A switch to an identifier that the registry does not have for the current
  provider-type: the promise rejects with the not-found error and the manager is the
  one before the call, provider-type, identifier, source and timestamp included.
\<close>

theorem switchModel_not_found:
  assumes "\<not> hasModel (modelRegistry m) (currentAuthType m) modelId"
  shows "switchModel m modelId source now = (Inl (ModelNotFound modelId (currentAuthType m)), m)"
  using assms by (simp add: hasModel_getModel switchModel_def)

theorem switchModel_not_found_witness:
  "\<not> hasModel (modelRegistry example_manager) (currentAuthType example_manager) ''non-existent'' \<and>
   switchModel example_manager ''non-existent'' USER_MANUAL 2000 =
     (Inl (ModelNotFound ''non-existent'' ''openai''), example_manager)"
  using switchModel_not_found[of example_manager "''non-existent''" USER_MANUAL 2000]
  by (simp add: example_manager_fields)

section \<open>The constructed registry\<close>

lemma builtin_registry_Inr:
  "registerAuthTypeModels empty_registry QWEN_OAUTH QWEN_OAUTH_MODELS = Inr builtin_registry"
  by (simp add: builtin_registry_def empty_registry_def eval_defs)

lemma constructor_None: "ModelRegistry_constructor None = Inr builtin_registry"
  using builtin_registry_Inr by (simp add: ModelRegistry_constructor_def empty_registry_def)

lemma constructor_Some: "ModelRegistry_constructor (Some cfg) = registerEntries cfg builtin_registry"
  using builtin_registry_Inr by (simp add: ModelRegistry_constructor_def empty_registry_def)

lemma consistent_empty: "consistent empty_registry"
  by (simp add: consistent_def empty_registry_def getOrEmpty_def hasModel_def)

lemma consistent_builtin: "consistent builtin_registry"
  by (rule registerAuthTypeModels_consistent[OF builtin_registry_Inr consistent_empty])
     (simp add: empty_registry_def)

lemma builtin_keys: "map_of (modelsByAuthType builtin_registry) k \<noteq> None \<longleftrightarrow> k = QWEN_OAUTH"
  using builtin_registry_Inr
  by (auto elim!: registerAuthTypeModels_Inr simp: update_conv' empty_registry_def
      split: if_splits)

lemma registerEntries_untouched:
  "registerEntries cfg reg = Inr reg' \<Longrightarrow> k \<notin> fst ` set cfg \<or> k = QWEN_OAUTH \<Longrightarrow>
   map_of (modelsByAuthType reg') k = map_of (modelsByAuthType reg) k"
proof (induction cfg reg rule: registerEntries.induct)
  case (1 reg)
  then show ?case by simp
next
  case (2 a models rest reg)
  show ?case
  proof (cases "a = QWEN_OAUTH")
    case True
    with 2 show ?thesis by auto
  next
    case False
    with "2.prems" obtain reg1 where r1: "registerAuthTypeModels reg a models = Inr reg1"
      and rest: "registerEntries rest reg1 = Inr reg'"
      by (auto split: sum.splits)
    from "2.prems"(2) False have ka: "k \<noteq> a" and k': "k \<notin> fst ` set rest \<or> k = QWEN_OAUTH" by auto
    from "2.IH"(2)[OF False r1 rest k'] registerAuthTypeModels_other[OF r1 ka]
    show ?thesis by simp
  qed
qed

lemma registerEntries_consistent:
  "registerEntries cfg reg = Inr reg' \<Longrightarrow> consistent reg \<Longrightarrow> distinct (map fst cfg) \<Longrightarrow>
   (\<forall>k\<in>fst ` set cfg. k \<noteq> QWEN_OAUTH \<longrightarrow> map_of (modelsByAuthType reg) k = None) \<Longrightarrow>
   consistent reg'"
proof (induction cfg reg rule: registerEntries.induct)
  case (1 reg)
  then show ?case by simp
next
  case (2 a models rest reg)
  show ?case
  proof (cases "a = QWEN_OAUTH")
    case True
    with 2 show ?thesis by auto
  next
    case False
    with "2.prems" obtain reg1 where r1: "registerAuthTypeModels reg a models = Inr reg1"
      and rest: "registerEntries rest reg1 = Inr reg'"
      by (auto split: sum.splits)
    from "2.prems"(4) False have new: "map_of (modelsByAuthType reg) a = None" by simp
    have c1: "consistent reg1"
      by (rule registerAuthTypeModels_consistent[OF r1 "2.prems"(2) new])
    have d: "distinct (map fst rest)" and notin: "a \<notin> fst ` set rest"
      using "2.prems"(3) by auto
    have fresh: "\<forall>k\<in>fst ` set rest. k \<noteq> QWEN_OAUTH \<longrightarrow> map_of (modelsByAuthType reg1) k = None"
    proof (intro ballI impI)
      fix k assume k: "k \<in> fst ` set rest" and q: "k \<noteq> QWEN_OAUTH"
      with notin have "k \<noteq> a" by auto
      moreover from k q "2.prems"(4) have "map_of (modelsByAuthType reg) k = None" by auto
      ultimately show "map_of (modelsByAuthType reg1) k = None"
        using registerAuthTypeModels_other[OF r1] by simp
    qed
    from "2.IH"(2)[OF False r1 rest c1 d fresh] show ?thesis .
  qed
qed

lemma registerEntries_forward:
  "registerEntries cfg reg = Inr reg' \<Longrightarrow> distinct (map fst cfg) \<Longrightarrow>
   (a, models) \<in> set cfg \<Longrightarrow> a \<noteq> QWEN_OAUTH \<Longrightarrow>
   \<exists>mm idx idx'. registerModels a models [] idx = Inr (mm, idx') \<and>
      map_of (modelsByAuthType reg') a = Some mm"
proof (induction cfg reg rule: registerEntries.induct)
  case (1 reg)
  then show ?case by simp
next
  case (2 b ms rest reg)
  show ?case
  proof (cases "b = QWEN_OAUTH")
    case True
    with 2 show ?thesis by auto
  next
    case False
    with "2.prems" obtain reg1 where r1: "registerAuthTypeModels reg b ms = Inr reg1"
      and rest: "registerEntries rest reg1 = Inr reg'"
      by (auto split: sum.splits)
    have d: "distinct (map fst rest)" and notin: "b \<notin> fst ` set rest"
      using "2.prems"(2) by auto
    show ?thesis
    proof (cases "(a, models) \<in> set rest")
      case True
      from "2.IH"(2)[OF False r1 rest d True "2.prems"(4)] show ?thesis .
    next
      case False
      with "2.prems"(3) have eq: "b = a" "ms = models" by auto
      from r1 obtain mm where
        mm: "registerModels b ms [] (modelIdToAuthTypes reg) = Inr (mm, modelIdToAuthTypes reg1)"
        and upd: "modelsByAuthType reg1 = AList.update b mm (modelsByAuthType reg)"
        by (rule registerAuthTypeModels_Inr)
      from notin have "b \<notin> fst ` set rest \<or> b = QWEN_OAUTH" by simp
      from registerEntries_untouched[OF rest this] upd
      have "map_of (modelsByAuthType reg') b = Some mm" by (simp add: update_conv')
      with mm eq show ?thesis by blast
    qed
  qed
qed

lemma update_ids:
  "\<forall>(k, v)\<in>set al. P k v \<Longrightarrow> P k' v' \<Longrightarrow> \<forall>(k, v)\<in>set (AList.update k' v' al). P k v"
  by (induction al) auto

lemma registerModels_ids:
  "registerModels a cs mm idx = Inr (mm', idx') \<Longrightarrow>
   \<forall>(k, v)\<in>set mm. rm_id v = k \<and> rm_authType v = a \<Longrightarrow>
   \<forall>(k, v)\<in>set mm'. rm_id v = k \<and> rm_authType v = a"
proof (induction cs arbitrary: mm idx)
  case Nil
  then show ?case by simp
next
  case (Cons c cs)
  from Cons.prems obtain r where r: "resolveModelConfig c a = Inr r"
    by (cases "resolveModelConfig c a") auto
  from Cons.prems r
  have step: "registerModels a cs (AList.update (rm_id r) r mm)
      (AList.update (rm_id r) (getOrEmpty idx (rm_id r) @ [a]) idx) = Inr (mm', idx')"
    by (simp add: Let_def)
  have "\<forall>(k, v)\<in>set (AList.update (rm_id r) r mm). rm_id v = k \<and> rm_authType v = a"
    using Cons.prems(2) resolve_Inr_authType[OF r]
    by (intro update_ids) auto
  from Cons.IH[OF step this] show ?case .
qed

lemma builtin_catalog:
  "\<exists>mm. map_of (modelsByAuthType builtin_registry) QWEN_OAUTH = Some mm \<and>
        map fst mm = [''coder-model'', ''vision-model''] \<and>
        map (\<lambda>p. Inr (snd p)) mm = map (\<lambda>c. resolveModelConfig c QWEN_OAUTH) QWEN_OAUTH_MODELS"
  by (simp add: builtin_registry_def empty_registry_def eval_defs)

lemma constructor_builtin:
  assumes "ModelRegistry_constructor config = Inr reg"
  shows "map_of (modelsByAuthType reg) QWEN_OAUTH = map_of (modelsByAuthType builtin_registry) QWEN_OAUTH"
proof (cases config)
  case None
  with assms show ?thesis by (simp add: constructor_None)
next
  case (Some cfg)
  with assms show ?thesis by (simp add: constructor_Some registerEntries_builtin)
qed

text \<open>
  C3. Whatever the providers configuration, the registry that the constructor returns
  has under the built-in provider-type exactly the two hard-coded definitions,
  \<^verbatim>\<open>coder-model\<close> and \<^verbatim>\<open>vision-model\<close>, resolved, in this order. The entries of the
  configuration under that key take no part: the constructor returns the same result,
  registry or error, for the configuration without them.
\<close>

theorem builtin_catalog_fixed:
  "ModelRegistry_constructor (Some cfg) =
     ModelRegistry_constructor (Some (filter (\<lambda>e. fst e \<noteq> QWEN_OAUTH) cfg)) \<and>
   (\<forall>reg. ModelRegistry_constructor config = Inr reg \<longrightarrow>
      (\<exists>mm. map_of (modelsByAuthType reg) QWEN_OAUTH = Some mm \<and>
            map fst mm = [''coder-model'', ''vision-model''] \<and>
            map (\<lambda>p. Inr (snd p)) mm =
              map (\<lambda>c. resolveModelConfig c QWEN_OAUTH) QWEN_OAUTH_MODELS) \<and>
      map am_id (getModelsForAuthType reg QWEN_OAUTH) = [''coder-model'', ''vision-model''] \<and>
      (\<forall>i. hasModel reg QWEN_OAUTH i \<longleftrightarrow> i = ''coder-model'' \<or> i = ''vision-model''))"
proof (intro conjI allI impI)
  show "ModelRegistry_constructor (Some cfg) =
     ModelRegistry_constructor (Some (filter (\<lambda>e. fst e \<noteq> QWEN_OAUTH) cfg))"
    by (simp add: constructor_Some registerEntries_filter)
next
  fix reg assume r: "ModelRegistry_constructor config = Inr reg"
  from builtin_catalog obtain mm where
    mm: "map_of (modelsByAuthType builtin_registry) QWEN_OAUTH = Some mm"
    and keys: "map fst mm = [''coder-model'', ''vision-model'']"
    and vals: "map (\<lambda>p. Inr (snd p)) mm = map (\<lambda>c. resolveModelConfig c QWEN_OAUTH) QWEN_OAUTH_MODELS"
    by auto
  have reg: "map_of (modelsByAuthType reg) QWEN_OAUTH = Some mm"
    using constructor_builtin[OF r] mm by simp
  show "\<exists>mm. map_of (modelsByAuthType reg) QWEN_OAUTH = Some mm \<and>
            map fst mm = [''coder-model'', ''vision-model''] \<and>
            map (\<lambda>p. Inr (snd p)) mm =
              map (\<lambda>c. resolveModelConfig c QWEN_OAUTH) QWEN_OAUTH_MODELS"
    using reg keys vals by simp
  have ids: "map (\<lambda>p. rm_id (snd p)) mm = [''coder-model'', ''vision-model'']"
  proof -
    have "map (\<lambda>p. rm_id (snd p)) mm =
          map (\<lambda>x. rm_id (projr x)) (map (\<lambda>p. (Inr (snd p) :: error + ResolvedModelConfig)) mm)"
      by simp
    also have "\<dots> = [''coder-model'', ''vision-model'']"
      unfolding vals by (simp add: eval_defs)
    finally show ?thesis .
  qed
  show "map am_id (getModelsForAuthType reg QWEN_OAUTH) = [''coder-model'', ''vision-model'']"
    using reg ids by (simp add: getModelsForAuthType_def comp_def)
  fix i
  have "map_of mm i \<noteq> None \<longleftrightarrow> i \<in> set (map fst mm)"
    by (simp add: map_of_eq_None_iff)
  then show "hasModel reg QWEN_OAUTH i \<longleftrightarrow> i = ''coder-model'' \<or> i = ''vision-model''"
    using reg keys by (auto simp: hasModel_def)
qed

theorem builtin_catalog_fixed_witness:
  "ModelRegistry_constructor (Some tamper_config) = Inr builtin_registry \<and>
   ModelRegistry_constructor (Some tamper_config) = ModelRegistry_constructor (Some []) \<and>
   map am_id (getModelsForAuthType builtin_registry QWEN_OAUTH) = [''coder-model'', ''vision-model''] \<and>
   \<not> hasModel builtin_registry QWEN_OAUTH ''custom-qwen''"
proof -
  have r: "ModelRegistry_constructor (Some tamper_config) = Inr builtin_registry"
    by (simp add: constructor_Some tamper_config_def QWEN_OAUTH_def)
  have f: "filter (\<lambda>e. fst e \<noteq> QWEN_OAUTH) tamper_config = []"
    by (simp add: tamper_config_def QWEN_OAUTH_def)
  from builtin_catalog_fixed[of tamper_config "Some tamper_config"] r f
  show ?thesis by simp
qed

text \<open>
  C8, amended. A providers configuration that has, under a key other than the built-in
  provider-type, a model definition whose identifier is missing or empty: the
  constructor throws and returns no registry, and the error names the provider-type of
  the first such entry. (Entries under the built-in key are skipped before they are
  validated, so a malformed definition there does not make the constructor throw.)
\<close>

theorem malformed_entry_aborts:
  assumes "(a, models) \<in> set cfg" and "a \<noteq> QWEN_OAUTH"
    and "c \<in> set models" and "mc_id c = None \<or> mc_id c = Some []"
  shows "\<exists>pre a' models' post.
           cfg = pre @ (a', models') # post \<and> (\<forall>x\<in>set pre. \<not> offending x) \<and>
           a' \<noteq> QWEN_OAUTH \<and> (\<exists>c'\<in>set models'. mc_id c' = None \<or> mc_id c' = Some []) \<and>
           ModelRegistry_constructor (Some cfg) = Inl (MissingId a')"
proof -
  from assms have "\<exists>x\<in>set cfg. offending x"
    by (auto simp: offending_def badId_def intro!: bexI[of _ "(a, models)"])
  then obtain pre x post where
    cfg: "cfg = pre @ x # post" and off: "offending x" and pre: "\<forall>y\<in>set pre. \<not> offending y"
    using split_list_first_prop[of cfg offending] by auto
  obtain a' models' where x: "x = (a', models')" by (cases x)
  have "registerEntries cfg builtin_registry = Inl (MissingId a')"
    unfolding registerEntries_Inl using cfg off pre x by blast
  with cfg off pre x show ?thesis
    by (auto simp: constructor_Some offending_def badId_def)
qed

theorem malformed_entry_aborts_witness:
  "(''openai'', [no_id]) \<in> set [(''openai'', [no_id])] \<and> ''openai'' \<noteq> QWEN_OAUTH \<and>
   mc_id no_id = Some [] \<and>
   ModelRegistry_constructor (Some [(''openai'', [no_id])]) = Inl (MissingId ''openai'')"
proof -
  have m: "(''openai'', [no_id]) \<in> set [(''openai'', [no_id])]" by simp
  have q: "''openai'' \<noteq> QWEN_OAUTH" by (simp add: QWEN_OAUTH_def)
  have c: "no_id \<in> set [no_id]" by simp
  have e: "mc_id no_id = Some []" by (simp add: no_id_def)
  then have i: "mc_id no_id = None \<or> mc_id no_id = Some []" by simp
  from malformed_entry_aborts[OF m q c i]
  obtain pre a' models' post where
    split: "[(''openai'', [no_id])] = pre @ (a', models') # post"
    and err: "ModelRegistry_constructor (Some [(''openai'', [no_id])]) = Inl (MissingId a')"
    by auto
  from split have "a' = ''openai''"
    by (cases pre) auto
  with err m q e show ?thesis by simp
qed

text \<open>
  C8 as stated fails: a definition with an empty identifier under the built-in key is
  skipped, and the registry is constructed.
\<close>

theorem malformed_builtin_entry_counterexample:
  "\<not> isl (ModelRegistry_constructor (Some [(''qwen-oauth'', [no_id])]))"
  by (simp add: constructor_Some QWEN_OAUTH_def)

section \<open>The default of a provider-type\<close>

lemma registerModels_keep:
  "registerModels a cs mm idx = Inr (mm', idx') \<Longrightarrow> Some k \<notin> mc_id ` set cs \<Longrightarrow>
   map_of mm' k = map_of mm k"
proof (induction cs arbitrary: mm idx)
  case Nil
  then show ?case by simp
next
  case (Cons c cs)
  from Cons.prems obtain r where r: "resolveModelConfig c a = Inr r"
    by (cases "resolveModelConfig c a") auto
  from Cons.prems r
  have step: "registerModels a cs (AList.update (rm_id r) r mm)
      (AList.update (rm_id r) (getOrEmpty idx (rm_id r) @ [a]) idx) = Inr (mm', idx')"
    by (simp add: Let_def)
  from Cons.prems(2) resolve_Inr_id[OF r] have "k \<noteq> rm_id r" "Some k \<notin> mc_id ` set cs"
    by auto
  with Cons.IH[OF step] show ?case by (simp add: update_conv')
qed

lemma registerModels_default:
  assumes "registerModels a (c # cs) [] idx = Inr (mm', idx')"
  shows "\<exists>m rest. mm' = (the (mc_id c), m) # rest \<and> rm_id m = the (mc_id c) \<and>
           ((\<forall>c'\<in>set cs. mc_id c' \<noteq> mc_id c) \<longrightarrow> resolveModelConfig c a = Inr m)"
proof -
  from registerModels_first[OF assms] obtain m rest where mm': "mm' = (the (mc_id c), m) # rest"
    by auto
  have "\<forall>(k, v)\<in>set mm'. rm_id v = k \<and> rm_authType v = a"
    by (rule registerModels_ids[OF assms]) simp
  with mm' have id: "rm_id m = the (mc_id c)" by simp
  have "resolveModelConfig c a = Inr m" if uniq: "\<forall>c'\<in>set cs. mc_id c' \<noteq> mc_id c"
  proof -
    from assms obtain r where r: "resolveModelConfig c a = Inr r"
      by (cases "resolveModelConfig c a") auto
    with assms have step: "registerModels a cs [(rm_id r, r)]
        (AList.update (rm_id r) (getOrEmpty idx (rm_id r) @ [a]) idx) = Inr (mm', idx')"
      by (simp add: Let_def)
    from uniq resolve_Inr_id[OF r] have "Some (rm_id r) \<notin> mc_id ` set cs" by force
    from registerModels_keep[OF step this] have "map_of mm' (rm_id r) = Some r" by simp
    with mm' resolve_Inr_id[OF r] have "m = r" by simp
    with r show ?thesis by simp
  qed
  with mm' id show ?thesis by blast
qed

lemma constructor_forward_None:
  assumes "ModelRegistry_constructor config = Inr reg" and "a \<noteq> QWEN_OAUTH"
    and "config = None \<or> (\<exists>cfg. config = Some cfg \<and> a \<notin> fst ` set cfg)"
  shows "map_of (modelsByAuthType reg) a = None"
proof (cases config)
  case None
  with assms(1,2) builtin_keys[of a] show ?thesis by (simp add: constructor_None)
next
  case (Some cfg)
  with assms have r: "registerEntries cfg builtin_registry = Inr reg" and n: "a \<notin> fst ` set cfg"
    by (simp_all add: constructor_Some)
  from registerEntries_untouched[OF r, of a] n builtin_keys[of a] assms(2)
  show ?thesis by simp
qed

text \<open>
  C6. The default of a provider-type. For the built-in one it is the definition
  stored under the fixed identifier \<^verbatim>\<open>coder-model\<close>, whatever is stored first; every
  constructed registry has it. For any other provider-type it is the first definition
  in registration order: nothing if the provider-type has no entry in the configuration
  or an empty list, and otherwise the definition stored under the identifier of the
  first model definition of its list (that definition resolved, when no later one of
  the list repeats its identifier).
\<close>

theorem default_model_asymmetric:
  "getDefaultModelForAuthType r QWEN_OAUTH = getModel r QWEN_OAUTH ''coder-model'' \<and>
   (a \<noteq> QWEN_OAUTH \<longrightarrow> getDefaultModelForAuthType r a = getFirstModelForAuthType r a) \<and>
   (\<forall>reg. ModelRegistry_constructor config = Inr reg \<longrightarrow>
      (\<exists>m. getDefaultModelForAuthType reg QWEN_OAUTH = Some m \<and> rm_id m = ''coder-model'') \<and>
      (a \<noteq> QWEN_OAUTH \<and> config = None \<longrightarrow> getDefaultModelForAuthType reg a = None) \<and>
      (\<forall>cfg. a \<noteq> QWEN_OAUTH \<and> config = Some cfg \<and> distinct (map fst cfg) \<longrightarrow>
         (case map_of cfg a of
            None \<Rightarrow> getDefaultModelForAuthType reg a = None
          | Some [] \<Rightarrow> getDefaultModelForAuthType reg a = None
          | Some (c # cs) \<Rightarrow>
              (\<exists>m. getDefaultModelForAuthType reg a = Some m \<and>
                   rm_id m = the (mc_id c) \<and>
                   getModel reg a (the (mc_id c)) = Some m \<and>
                   ((\<forall>c'\<in>set cs. mc_id c' \<noteq> mc_id c) \<longrightarrow> resolveModelConfig c a = Inr m)))))"
proof (intro conjI allI impI)
  show "getDefaultModelForAuthType r QWEN_OAUTH = getModel r QWEN_OAUTH ''coder-model''"
    by (simp add: getDefaultModelForAuthType_def DEFAULT_QWEN_MODEL_def)
next
  assume "a \<noteq> QWEN_OAUTH"
  then show "getDefaultModelForAuthType r a = getFirstModelForAuthType r a"
    by (simp add: getDefaultModelForAuthType_def)
next
  fix reg assume r: "ModelRegistry_constructor config = Inr reg"
  have "getModel builtin_registry QWEN_OAUTH ''coder-model'' \<noteq> None \<and>
        rm_id (the (getModel builtin_registry QWEN_OAUTH ''coder-model'')) = ''coder-model''"
    by (simp add: builtin_registry_def empty_registry_def eval_defs)
  moreover have "getModel reg QWEN_OAUTH ''coder-model'' = getModel builtin_registry QWEN_OAUTH ''coder-model''"
    using constructor_builtin[OF r] by (simp add: getModel_def)
  ultimately show "\<exists>m. getDefaultModelForAuthType reg QWEN_OAUTH = Some m \<and> rm_id m = ''coder-model''"
    by (auto simp: getDefaultModelForAuthType_def DEFAULT_QWEN_MODEL_def)
next
  fix reg assume r: "ModelRegistry_constructor config = Inr reg"
    and h: "a \<noteq> QWEN_OAUTH \<and> config = None"
  from constructor_forward_None[OF r] h have "map_of (modelsByAuthType reg) a = None" by simp
  with h show "getDefaultModelForAuthType reg a = None"
    by (simp add: getDefaultModelForAuthType_def getFirstModelForAuthType_def)
next
  fix reg cfg assume r: "ModelRegistry_constructor config = Inr reg"
    and h: "a \<noteq> QWEN_OAUTH \<and> config = Some cfg \<and> distinct (map fst cfg)"
  then have a: "a \<noteq> QWEN_OAUTH" and cfg: "config = Some cfg" and d: "distinct (map fst cfg)"
    by simp_all
  from r cfg have re: "registerEntries cfg builtin_registry = Inr reg"
    by (simp add: constructor_Some)
  have def: "getDefaultModelForAuthType reg a = getFirstModelForAuthType reg a"
    using a by (simp add: getDefaultModelForAuthType_def)
  show "case map_of cfg a of
            None \<Rightarrow> getDefaultModelForAuthType reg a = None
          | Some [] \<Rightarrow> getDefaultModelForAuthType reg a = None
          | Some (c # cs) \<Rightarrow>
              (\<exists>m. getDefaultModelForAuthType reg a = Some m \<and>
                   rm_id m = the (mc_id c) \<and>
                   getModel reg a (the (mc_id c)) = Some m \<and>
                   ((\<forall>c'\<in>set cs. mc_id c' \<noteq> mc_id c) \<longrightarrow> resolveModelConfig c a = Inr m))"
  proof (cases "map_of cfg a")
    case None
    then have "a \<notin> fst ` set cfg" by (simp add: map_of_eq_None_iff)
    with constructor_forward_None[OF r a] cfg have "map_of (modelsByAuthType reg) a = None" by simp
    with None def show ?thesis by (simp add: getFirstModelForAuthType_def)
  next
    case (Some models)
    then have "(a, models) \<in> set cfg" by (rule map_of_SomeD)
    from registerEntries_forward[OF re d this a] obtain mm idx idx' where
      rm: "registerModels a models [] idx = Inr (mm, idx')"
      and fw: "map_of (modelsByAuthType reg) a = Some mm" by blast
    show ?thesis
    proof (cases models)
      case Nil
      with rm have "mm = []" by simp
      with fw def Some Nil show ?thesis by (simp add: getFirstModelForAuthType_def)
    next
      case (Cons c cs)
      from registerModels_default[OF rm[unfolded Cons]] obtain m rest where
        mm: "mm = (the (mc_id c), m) # rest" and id: "rm_id m = the (mc_id c)"
        and res: "(\<forall>c'\<in>set cs. mc_id c' \<noteq> mc_id c) \<longrightarrow> resolveModelConfig c a = Inr m"
        by blast
      from fw mm def have "getDefaultModelForAuthType reg a = Some m"
        by (simp add: getFirstModelForAuthType_def)
      moreover from fw mm have "getModel reg a (the (mc_id c)) = Some m"
        by (simp add: getModel_def)
      ultimately show ?thesis using Some Cons id res by simp
    qed
  qed
qed

lemma example_registry:
  "ModelRegistry_constructor (Some example_config) = Inr (modelRegistry example_manager)"
  by (simp add: example_manager_def example_options_def example_defs eval_defs)

theorem default_model_asymmetric_witness:
  "ModelRegistry_constructor (Some example_config) = Inr (modelRegistry example_manager) \<and>
   ''openai'' \<noteq> QWEN_OAUTH \<and> distinct (map fst example_config) \<and>
   map_option rm_id (getDefaultModelForAuthType (modelRegistry example_manager) QWEN_OAUTH) =
     Some ''coder-model'' \<and>
   map_option rm_id (getDefaultModelForAuthType (modelRegistry example_manager) ''openai'') =
     Some ''gpt-4-turbo'' \<and>
   map_option rm_id (getDefaultModelForAuthType reordered_registry QWEN_OAUTH) = Some ''coder-model'' \<and>
   map_option rm_id (getFirstModelForAuthType reordered_registry QWEN_OAUTH) = Some ''vision-model''"
proof -
  have q: "''openai'' \<noteq> QWEN_OAUTH" by (simp add: QWEN_OAUTH_def)
  have d: "distinct (map fst example_config)" by (simp add: example_config_def)
  have m: "map_of example_config ''openai'' = Some [gpt_4_turbo, gpt_3_5_turbo, deepseek_coder]"
    by (simp add: example_config_def)
  have i: "mc_id gpt_4_turbo = Some ''gpt-4-turbo''" by (simp add: gpt_4_turbo_def)
  have re: "map_option rm_id (getModel reordered_registry QWEN_OAUTH ''coder-model'') = Some ''coder-model''"
    "map_option rm_id (getFirstModelForAuthType reordered_registry QWEN_OAUTH) = Some ''vision-model''"
    by (simp_all add: reordered_registry_def builtin_registry_def empty_registry_def eval_defs)
  from default_model_asymmetric[of reordered_registry "''openai''" "Some example_config"]
    example_registry q d
  have "getDefaultModelForAuthType reordered_registry QWEN_OAUTH =
          getModel reordered_registry QWEN_OAUTH ''coder-model''"
    and "\<exists>m. getDefaultModelForAuthType (modelRegistry example_manager) QWEN_OAUTH = Some m \<and>
            rm_id m = ''coder-model''"
    and "\<exists>m. getDefaultModelForAuthType (modelRegistry example_manager) ''openai'' = Some m \<and>
            rm_id m = the (mc_id gpt_4_turbo)"
    by (auto simp: m)
  with example_registry q d re i show ?thesis by auto
qed

section \<open>The reverse lookup\<close>

lemma constructor_consistent:
  assumes r: "ModelRegistry_constructor config = Inr reg"
    and d: "\<forall>cfg. config = Some cfg \<longrightarrow> distinct (map fst cfg)"
  shows "consistent reg"
proof (cases config)
  case None
  with r consistent_builtin show ?thesis by (simp add: constructor_None)
next
  case (Some cfg)
  with r have re: "registerEntries cfg builtin_registry = Inr reg"
    by (simp add: constructor_Some)
  from d Some have dd: "distinct (map fst cfg)" by simp
  have "\<forall>k\<in>fst ` set cfg. k \<noteq> QWEN_OAUTH \<longrightarrow> map_of (modelsByAuthType builtin_registry) k = None"
    using builtin_keys by blast
  from registerEntries_consistent[OF re consistent_builtin dd this] show ?thesis .
qed

text \<open>
  C9. The reverse lookup without a preferred provider-type returns exactly the
  provider-types under which the registry has the identifier, so the empty list for an
  identifier that no provider-type has. The preferred provider-type is a member of the
  enum \<^verbatim>\<open>AuthType\<close>, none of which is the empty string: when it is in that list, the
  result is the preferred one followed by the others in their order. When it is not in
  the list, or is falsy, which the code takes as none being passed, the result is the
  list itself.
\<close>

theorem reverse_lookup:
  "(\<forall>reg. ModelRegistry_constructor config = Inr reg \<and>
          (\<forall>cfg. config = Some cfg \<longrightarrow> distinct (map fst cfg)) \<longrightarrow>
      (\<forall>a. a \<in> set (findAuthTypesForModel reg i None) \<longleftrightarrow> hasModel reg a i) \<and>
      ((\<forall>a. \<not> hasModel reg a i) \<longrightarrow> findAuthTypesForModel reg i pref = [])) \<and>
   (p \<noteq> [] \<and> p \<in> set (findAuthTypesForModel r i None) \<longrightarrow>
      findAuthTypesForModel r i (Some p) =
        p # filter (\<lambda>t. t \<noteq> p) (findAuthTypesForModel r i None) \<and>
      set (findAuthTypesForModel r i (Some p)) = set (findAuthTypesForModel r i None)) \<and>
   (p = [] \<or> p \<notin> set (findAuthTypesForModel r i None) \<longrightarrow>
      findAuthTypesForModel r i (Some p) = findAuthTypesForModel r i None)"
proof (intro conjI allI impI)
  fix reg a
  assume h: "ModelRegistry_constructor config = Inr reg \<and>
          (\<forall>cfg. config = Some cfg \<longrightarrow> distinct (map fst cfg))"
  then have c: "consistent reg" using constructor_consistent by blast
  then show "a \<in> set (findAuthTypesForModel reg i None) \<longleftrightarrow> hasModel reg a i"
    by (simp add: consistent_def findAuthTypesForModel_def)
next
  fix reg
  assume h: "ModelRegistry_constructor config = Inr reg \<and>
          (\<forall>cfg. config = Some cfg \<longrightarrow> distinct (map fst cfg))"
    and none: "\<forall>a. \<not> hasModel reg a i"
  from h have c: "consistent reg" using constructor_consistent by blast
  have "\<forall>a. a \<notin> set (getOrEmpty (modelIdToAuthTypes reg) i)"
    using c none by (simp add: consistent_def)
  then have "getOrEmpty (modelIdToAuthTypes reg) i = []"
    by (cases "getOrEmpty (modelIdToAuthTypes reg) i") auto
  then show "findAuthTypesForModel reg i pref = []"
    by (simp add: findAuthTypesForModel_def split: option.splits)
next
  assume "p \<noteq> [] \<and> p \<in> set (findAuthTypesForModel r i None)"
  then show "findAuthTypesForModel r i (Some p) =
        p # filter (\<lambda>t. t \<noteq> p) (findAuthTypesForModel r i None)"
    by (simp add: findAuthTypesForModel_def)
next
  assume "p \<noteq> [] \<and> p \<in> set (findAuthTypesForModel r i None)"
  then show "set (findAuthTypesForModel r i (Some p)) = set (findAuthTypesForModel r i None)"
    by (auto simp: findAuthTypesForModel_def)
next
  assume "p = [] \<or> p \<notin> set (findAuthTypesForModel r i None)"
  then show "findAuthTypesForModel r i (Some p) = findAuthTypesForModel r i None"
    by (auto simp: findAuthTypesForModel_def)
qed

lemmas shared_defs = shared_registry_def shared_config_def shared_model_def

lemma shared_registry_Inr: "ModelRegistry_constructor (Some shared_config) = Inr shared_registry"
  by (simp add: shared_defs eval_defs)

theorem reverse_lookup_witness:
  "ModelRegistry_constructor (Some shared_config) = Inr shared_registry \<and>
   distinct (map fst shared_config) \<and>
   findAuthTypesForModel shared_registry ''shared-model'' None = [''openai'', ''gemini-api-key''] \<and>
   hasModel shared_registry ''openai'' ''shared-model'' \<and>
   hasModel shared_registry ''gemini-api-key'' ''shared-model'' \<and>
   findAuthTypesForModel shared_registry ''shared-model'' (Some ''gemini-api-key'') =
     [''gemini-api-key'', ''openai''] \<and>
   findAuthTypesForModel shared_registry ''shared-model'' (Some ''vertex-ai'') =
     [''openai'', ''gemini-api-key'']"
proof -
  have d: "\<forall>cfg. Some shared_config = Some cfg \<longrightarrow> distinct (map fst cfg)"
    by (simp add: shared_config_def)
  have l: "findAuthTypesForModel shared_registry ''shared-model'' None = [''openai'', ''gemini-api-key'']"
    by (simp add: findAuthTypesForModel_def shared_defs eval_defs)
  from reverse_lookup[of "Some shared_config" "''shared-model''" None "''gemini-api-key''" shared_registry]
    reverse_lookup[of "Some shared_config" "''shared-model''" None "''vertex-ai''" shared_registry]
    shared_registry_Inr d l
  show ?thesis by (auto simp: shared_config_def)
qed

section \<open>Resolution of a model definition\<close>

text \<open>
  C7, amended. Resolution merges the generation parameters property by property with
  the global defaults: a property that the supplied parameters have is kept with the
  value it has there, \<^verbatim>\<open>undefined\<close> and \<^verbatim>\<open>null\<close> included, and every property that they do
  not have gets its global default (temperature 0.7, top_p 0.9, max_tokens 4096,
  timeout 60000, maxRetries 3, the others absent). A supplied base URL that is not the
  empty string is kept as it is, whatever the provider-type's default.
\<close>

theorem resolve_merges_field_by_field:
  assumes "resolveModelConfig config authType = Inr r"
  shows "(mc_generationConfig config = None \<longrightarrow>
            rm_generationConfig r = DEFAULT_GENERATION_CONFIG) \<and>
         (\<forall>g. mc_generationConfig config = Some g \<longrightarrow>
            temperature (rm_generationConfig r) =
              (case temperature g of Some v \<Rightarrow> Some v | None \<Rightarrow> Some (Value 0.7)) \<and>
            top_p (rm_generationConfig r) =
              (case top_p g of Some v \<Rightarrow> Some v | None \<Rightarrow> Some (Value 0.9)) \<and>
            top_k (rm_generationConfig r) = top_k g \<and>
            max_tokens (rm_generationConfig r) =
              (case max_tokens g of Some v \<Rightarrow> Some v | None \<Rightarrow> Some (Value 4096)) \<and>
            presence_penalty (rm_generationConfig r) = presence_penalty g \<and>
            frequency_penalty (rm_generationConfig r) = frequency_penalty g \<and>
            repetition_penalty (rm_generationConfig r) = repetition_penalty g \<and>
            timeout (rm_generationConfig r) =
              (case timeout g of Some v \<Rightarrow> Some v | None \<Rightarrow> Some (Value 60000)) \<and>
            maxRetries (rm_generationConfig r) =
              (case maxRetries g of Some v \<Rightarrow> Some v | None \<Rightarrow> Some (Value 3)) \<and>
            disableCacheControl (rm_generationConfig r) = disableCacheControl g) \<and>
         (\<forall>u. mc_baseUrl config = Some u \<and> u \<noteq> [] \<longrightarrow> rm_baseUrl r = StringValue u)"
proof -
  from assms have gen: "rm_generationConfig r = mergeGenerationConfig (mc_generationConfig config)"
    and url: "rm_baseUrl r =
      (case mc_baseUrl config of
         None \<Rightarrow> orEmpty (DEFAULT_BASE_URLS authType)
       | Some s \<Rightarrow> if s = [] then orEmpty (DEFAULT_BASE_URLS authType) else StringValue s)"
    by (auto simp: resolveModelConfig_def Let_def split: sum.splits)
  have "mc_generationConfig config = None \<longrightarrow> rm_generationConfig r = DEFAULT_GENERATION_CONFIG"
    using gen by (simp add: mergeGenerationConfig_def)
  moreover have "\<forall>g. mc_generationConfig config = Some g \<longrightarrow>
            temperature (rm_generationConfig r) =
              (case temperature g of Some v \<Rightarrow> Some v | None \<Rightarrow> Some (Value 0.7)) \<and>
            top_p (rm_generationConfig r) =
              (case top_p g of Some v \<Rightarrow> Some v | None \<Rightarrow> Some (Value 0.9)) \<and>
            top_k (rm_generationConfig r) = top_k g \<and>
            max_tokens (rm_generationConfig r) =
              (case max_tokens g of Some v \<Rightarrow> Some v | None \<Rightarrow> Some (Value 4096)) \<and>
            presence_penalty (rm_generationConfig r) = presence_penalty g \<and>
            frequency_penalty (rm_generationConfig r) = frequency_penalty g \<and>
            repetition_penalty (rm_generationConfig r) = repetition_penalty g \<and>
            timeout (rm_generationConfig r) =
              (case timeout g of Some v \<Rightarrow> Some v | None \<Rightarrow> Some (Value 60000)) \<and>
            maxRetries (rm_generationConfig r) =
              (case maxRetries g of Some v \<Rightarrow> Some v | None \<Rightarrow> Some (Value 3)) \<and>
            disableCacheControl (rm_generationConfig r) = disableCacheControl g"
    using gen
    by (simp add: mergeGenerationConfig_def spread_def DEFAULT_GENERATION_CONFIG_def
        split: option.splits)
  moreover have "\<forall>u. mc_baseUrl config = Some u \<and> u \<noteq> [] \<longrightarrow> rm_baseUrl r = StringValue u"
    using url by simp
  ultimately show ?thesis by blast
qed

theorem resolve_merges_field_by_field_witness:
  "\<not> isl (resolveModelConfig deepseek ''openai'') \<and>
   temperature (rm_generationConfig (projr (resolveModelConfig deepseek ''openai''))) =
     Some (Value 0.8) \<and>
   top_p (rm_generationConfig (projr (resolveModelConfig deepseek ''openai''))) =
     Some (Value 0.9) \<and>
   timeout (rm_generationConfig (projr (resolveModelConfig deepseek ''openai''))) =
     Some (Value 60000) \<and>
   maxRetries (rm_generationConfig (projr (resolveModelConfig deepseek ''openai''))) =
     Some (Value 3) \<and>
   rm_baseUrl (projr (resolveModelConfig deepseek ''openai'')) =
     StringValue ''https://api.deepseek.com/v1'' \<and>
   top_p (rm_generationConfig (projr (resolveModelConfig deepseek_undefined_top_p ''openai''))) =
     Some Undefined \<and>
   timeout (rm_generationConfig (projr (resolveModelConfig deepseek_undefined_top_p ''openai''))) =
     Some (Value 60000)"
proof -
  obtain r where r: "resolveModelConfig deepseek ''openai'' = Inr r"
    by (simp add: resolveModelConfig_def validateModelConfig_def deepseek_def)
  obtain r' where r': "resolveModelConfig deepseek_undefined_top_p ''openai'' = Inr r'"
    by (simp add: resolveModelConfig_def validateModelConfig_def deepseek_undefined_top_p_def
        deepseek_def)
  have g: "mc_generationConfig deepseek = Some
        \<lparr>temperature = Some (Value 0.8), top_p = None, top_k = None, max_tokens = None,
         presence_penalty = None, frequency_penalty = None, repetition_penalty = None,
         timeout = None, maxRetries = None, disableCacheControl = None\<rparr>"
    and u: "mc_baseUrl deepseek = Some ''https://api.deepseek.com/v1''"
    by (simp_all add: deepseek_def)
  have g': "mc_generationConfig deepseek_undefined_top_p = Some
        \<lparr>temperature = Some (Value 0.8), top_p = Some Undefined, top_k = None,
         max_tokens = None,
         presence_penalty = None, frequency_penalty = None, repetition_penalty = None,
         timeout = None, maxRetries = None, disableCacheControl = None\<rparr>"
    by (simp add: deepseek_undefined_top_p_def)
  from resolve_merges_field_by_field[OF r] g u
  have "temperature (rm_generationConfig r) = Some (Value 0.8) \<and>
        top_p (rm_generationConfig r) = Some (Value 0.9) \<and>
        timeout (rm_generationConfig r) = Some (Value 60000) \<and>
        maxRetries (rm_generationConfig r) = Some (Value 3) \<and>
        rm_baseUrl r = StringValue ''https://api.deepseek.com/v1''"
    by simp
  moreover from resolve_merges_field_by_field[OF r'] g'
  have "top_p (rm_generationConfig r') = Some Undefined \<and>
        timeout (rm_generationConfig r') = Some (Value 60000)"
    by simp
  ultimately show ?thesis using r r' by simp
qed

text \<open>
  C7 as stated fails twice. The empty string supplied as the base URL under
  \<^verbatim>\<open>openai\<close> is replaced by that provider-type's default. And generation parameters
  that carry \<^verbatim>\<open>top_p: undefined\<close> supply no value for \<^verbatim>\<open>top_p\<close>, yet the resolved
  \<^verbatim>\<open>top_p\<close> is \<^verbatim>\<open>undefined\<close>, not the global default 0.9.
\<close>

theorem resolve_keeps_base_url_counterexample:
  "mc_baseUrl blank_overrides = Some [] \<and>
   map_sum id rm_baseUrl (resolveModelConfig blank_overrides ''openai'') =
     Inr (StringValue ''https://api.openai.com/v1'') \<and>
   map_sum id (top_p \<circ> rm_generationConfig)
     (resolveModelConfig deepseek_undefined_top_p ''openai'') = Inr (Some Undefined) \<and>
   top_p DEFAULT_GENERATION_CONFIG = Some (Value 0.9)"
  by (simp add: blank_overrides_def deepseek_undefined_top_p_def deepseek_def
      resolveModelConfig_def validateModelConfig_def orEmpty_def DEFAULT_BASE_URLS_def
      mergeGenerationConfig_def spread_def DEFAULT_GENERATION_CONFIG_def)

text \<open>
  Resolution treats an empty string like an absent property. With the empty string as
  base URL or as name the resolved definition is the one obtained without that
  property: the base URL is what the lookup of the provider-type in
  \<^verbatim>\<open>DEFAULT_BASE_URLS\<close> gives, or the empty string when it gives nothing, and the name is
  the identifier. A resolved name is never empty. For a provider-type that is not named
  like a member of \<^verbatim>\<open>Object.prototype\<close> the base URL is then the table's string for the
  provider-type, or the empty string when the table has none.
\<close>

lemma resolve_empty_string_as_absent:
  "resolveModelConfig (c\<lparr>mc_baseUrl := Some []\<rparr>) a = resolveModelConfig (c\<lparr>mc_baseUrl := None\<rparr>) a \<and>
   resolveModelConfig (c\<lparr>mc_name := Some []\<rparr>) a = resolveModelConfig (c\<lparr>mc_name := None\<rparr>) a \<and>
   (\<forall>r. resolveModelConfig c a = Inr r \<longrightarrow>
      (mc_baseUrl c = Some [] \<longrightarrow> rm_baseUrl r = orEmpty (DEFAULT_BASE_URLS a)) \<and>
      (mc_baseUrl c = Some [] \<and> a \<notin> set Object_prototype_members \<longrightarrow>
         rm_baseUrl r =
           (if a = ''qwen-oauth''
              then StringValue ''https://dashscope.aliyuncs.com/compatible-mode/v1''
            else if a = ''openai'' then StringValue ''https://api.openai.com/v1''
            else StringValue [])) \<and>
      (mc_name c = Some [] \<longrightarrow> rm_name r = rm_id r \<and> mc_id c = Some (rm_id r)) \<and>
      rm_name r \<noteq> [])"
proof (intro conjI allI impI)
  show "resolveModelConfig (c\<lparr>mc_baseUrl := Some []\<rparr>) a = resolveModelConfig (c\<lparr>mc_baseUrl := None\<rparr>) a"
    by (simp add: resolveModelConfig_def validateModelConfig_def Let_def
        split: option.splits)
  show "resolveModelConfig (c\<lparr>mc_name := Some []\<rparr>) a = resolveModelConfig (c\<lparr>mc_name := None\<rparr>) a"
    by (simp add: resolveModelConfig_def validateModelConfig_def orElse_def Let_def
        split: option.splits)
next
  fix r assume r: "resolveModelConfig c a = Inr r"
  then have url: "rm_baseUrl r =
      (case mc_baseUrl c of
         None \<Rightarrow> orEmpty (DEFAULT_BASE_URLS a)
       | Some s \<Rightarrow> if s = [] then orEmpty (DEFAULT_BASE_URLS a) else StringValue s)"
    and name: "rm_name r = orElse (mc_name c) (the (mc_id c))"
    by (auto simp: resolveModelConfig_def Let_def split: sum.splits)
  note id = resolve_Inr_id[OF r]
  { assume "mc_baseUrl c = Some []"
    with url show "rm_baseUrl r = orEmpty (DEFAULT_BASE_URLS a)" by simp }
  { assume "mc_baseUrl c = Some [] \<and> a \<notin> set Object_prototype_members"
    with url show "rm_baseUrl r =
           (if a = ''qwen-oauth''
              then StringValue ''https://dashscope.aliyuncs.com/compatible-mode/v1''
            else if a = ''openai'' then StringValue ''https://api.openai.com/v1''
            else StringValue [])"
      by (simp add: orEmpty_def DEFAULT_BASE_URLS_def) }
  { assume "mc_name c = Some []"
    with name id show "rm_name r = rm_id r" by (simp add: orElse_def)
    from id show "mc_id c = Some (rm_id r)" by simp }
  from name id show "rm_name r \<noteq> []"
    by (auto simp: orElse_def split: option.splits if_splits)
qed

text \<open>
  C10 says that a model definition with the empty string as base URL gets the
  provider-type's default base URL, or the empty string if none is registered. The code
  does not do this for a provider-type named like a member of \<^verbatim>\<open>Object.prototype\<close>. The
  table registers no base URL for \<^verbatim>\<open>toString\<close>, but the lookup
  \<^verbatim>\<open>DEFAULT_BASE_URLS['toString']\<close> finds the inherited function, which is truthy, so
  \<^verbatim>\<open>|| ''\<close> keeps it. The registry built from a configuration with the key
  \<^verbatim>\<open>toString\<close> then holds a definition whose base URL is that function, where the claim,
  and the declaration \<^verbatim>\<open>baseUrl: string\<close>, give the empty string.
\<close>

theorem resolve_inherited_default_failing_input:
  "mc_baseUrl blank_overrides = Some [] \<and>
   ''toString'' \<noteq> ''qwen-oauth'' \<and> ''toString'' \<noteq> ''openai'' \<and>
   \<not> isl (ModelRegistry_constructor (Some [(''toString'', [blank_overrides])])) \<and>
   map_option rm_baseUrl
     (getModel (projr (ModelRegistry_constructor (Some [(''toString'', [blank_overrides])])))
        ''toString'' ''gpt-4'') = Some (InheritedMember ''toString'') \<and>
   InheritedMember ''toString'' \<noteq> StringValue []"
  by (simp add: blank_overrides_def eval_defs)

section \<open>The queries of the manager\<close>

text \<open>
  C5. The accessors of the current provider-type and identifier return the stored
  values for every manager. \<^verbatim>\<open>getCurrentModel\<close> throws the no-selection error exactly
  when the current identifier is empty; with a non-empty identifier that the registry
  does not have for the current provider-type it throws the not-found error; otherwise
  it returns the provider-type, the identifier, the resolved definition and the source.
\<close>

theorem current_model_queries:
  "getCurrentAuthType m = currentAuthType m \<and> getCurrentModelId m = currentModelId m \<and>
   (getCurrentModel m = Inl NoModelSelected \<longleftrightarrow> currentModelId m = []) \<and>
   (currentModelId m \<noteq> [] \<and>
    getModel (modelRegistry m) (currentAuthType m) (currentModelId m) = None \<longrightarrow>
      getCurrentModel m = Inl (CurrentModelNotFound (currentModelId m) (currentAuthType m))) \<and>
   (\<forall>model. currentModelId m \<noteq> [] \<and>
      getModel (modelRegistry m) (currentAuthType m) (currentModelId m) = Some model \<longrightarrow>
      getCurrentModel m =
        Inr \<lparr>cmi_authType = currentAuthType m, cmi_modelId = currentModelId m,
             cmi_model = model, cmi_selectionSource = selectionSource m\<rparr>)"
  by (auto simp: getCurrentAuthType_def getCurrentModelId_def getCurrentModel_def
      split: option.splits)

lemma other_manager_fields:
  "currentModelId unselected_manager = []"
  "currentModelId stale_manager = ''non-existent''"
  "currentAuthType stale_manager = ''openai''"
  "selectionSource stale_manager = DEFAULT"
  "getModel (modelRegistry stale_manager) ''openai'' ''non-existent'' = None"
  "getDefaultModelForAuthType (modelRegistry stale_manager) ''openai'' = None"
  by (simp_all add: unselected_manager_def stale_manager_def example_defs eval_defs)

theorem current_model_queries_witness:
  "getCurrentModel unselected_manager = Inl NoModelSelected \<and>
   getCurrentModel stale_manager = Inl (CurrentModelNotFound ''non-existent'' ''openai'') \<and>
   map_sum id cmi_modelId (getCurrentModel example_manager) = Inr ''gpt-4-turbo'' \<and>
   map_sum id cmi_selectionSource (getCurrentModel example_manager) = Inr SETTINGS"
proof -
  obtain model where
    model: "getModel (modelRegistry example_manager) (currentAuthType example_manager)
              (currentModelId example_manager) = Some model"
    by (cases "getModel (modelRegistry example_manager) (currentAuthType example_manager)
              (currentModelId example_manager)")
       (simp_all add: example_manager_def example_options_def example_defs eval_defs)
  from current_model_queries[of unselected_manager] current_model_queries[of stale_manager]
    current_model_queries[of example_manager] model
  show ?thesis
    by (simp add: other_manager_fields example_manager_fields)
qed

section \<open>Initialization of the manager\<close>

lemma registerEntries_nonempty_ids:
  "registerEntries cfg reg = Inr reg' \<Longrightarrow> \<forall>k. \<not> hasModel reg k [] \<Longrightarrow> \<not> hasModel reg' k []"
proof (induction cfg reg rule: registerEntries.induct)
  case (1 reg)
  then show ?case by simp
next
  case (2 a models rest reg)
  show ?case
  proof (cases "a = QWEN_OAUTH")
    case True
    with 2 show ?thesis by auto
  next
    case False
    with "2.prems" obtain reg1 where r1: "registerAuthTypeModels reg a models = Inr reg1"
      and rest: "registerEntries rest reg1 = Inr reg'"
      by (auto split: sum.splits)
    from r1 registerAuthTypeModels_Inl[of reg a models "MissingId a"]
    have "\<forall>c\<in>set models. \<not> badId c" by auto
    then have "Some [] \<notin> mc_id ` set models" by (auto simp: badId_def)
    with registerAuthTypeModels_hasModel[OF r1] "2.prems"(2)
    have "\<forall>k. \<not> hasModel reg1 k []" by auto
    from "2.IH"(2)[OF False r1 rest this] show ?thesis .
  qed
qed

lemma constructor_nonempty_ids:
  assumes "ModelRegistry_constructor config = Inr reg" and "hasModel reg a i"
  shows "i \<noteq> []"
proof -
  have b: "\<forall>k. \<not> hasModel builtin_registry k []"
    using registerAuthTypeModels_hasModel[OF builtin_registry_Inr, of _ "[]"]
    by (auto simp: QWEN_OAUTH_MODELS_def empty_registry_def hasModel_def)
  have "\<not> hasModel reg a []"
  proof (cases config)
    case None
    with assms(1) b show ?thesis by (simp add: constructor_None)
  next
    case (Some cfg)
    with assms(1) have "registerEntries cfg builtin_registry = Inr reg"
      by (simp add: constructor_Some)
    from registerEntries_nonempty_ids[OF this b] show ?thesis .
  qed
  with assms(2) show ?thesis by auto
qed

text \<open>
  C4, amended. Given that the registry is constructed, the manager is constructed
  too and starts with the first of these that applies: the supplied initial identifier,
  if the registry has it for the initial provider-type, with source settings; the
  identifier from the environment lookup, if the registry has it for the provider-type,
  with source environment; the identifier of the registry's default for the
  provider-type, with source default. When none applies the constructor still returns
  a manager, whose current identifier is the one it started from: empty when no
  initial identifier was supplied, and the supplied one otherwise.
\<close>

theorem initialization_precedence:
  assumes "ModelRegistry_constructor (modelProvidersConfig options) = Inr reg"
    and "a = orElse (initialAuthType options) QWEN_OAUTH"
    and "envModel = (if a = USE_OPENAI then env ''OPENAI_MODEL'' else None)"
  shows "\<exists>m. ModelSelectionManager_constructor options env now = Inr m \<and>
           modelRegistry m = reg \<and> currentAuthType m = a \<and>
           (if \<exists>i. initialModelId options = Some i \<and> hasModel reg a i
            then initialModelId options = Some (currentModelId m) \<and> selectionSource m = SETTINGS
            else if \<exists>e. envModel = Some e \<and> hasModel reg a e
            then envModel = Some (currentModelId m) \<and> selectionSource m = ENVIRONMENT
            else (case getDefaultModelForAuthType reg a of
                    Some d \<Rightarrow> currentModelId m = rm_id d \<and> selectionSource m = DEFAULT
                  | None \<Rightarrow>
                      currentModelId m = orElse (initialModelId options) [] \<and>
                      (initialModelId options = None \<longrightarrow> currentModelId m = []) \<and>
                      selectionSource m = DEFAULT))"
proof -
  define m0 where "m0 =
    \<lparr>modelRegistry = reg, currentAuthType = a,
     currentModelId = orElse (initialModelId options) [], selectionSource = DEFAULT,
     selectionTimestamp = now, onModelChange = opt_onModelChange options\<rparr>"
  have c: "ModelSelectionManager_constructor options env now = Inr (initializeDefaultSelection env m0)"
    using assms(1,2) by (simp add: ModelSelectionManager_constructor_def m0_def)
  have ne: "\<And>i. hasModel reg a i \<Longrightarrow> i \<noteq> []"
    using constructor_nonempty_ids[OF assms(1)] by blast
  have envm: "getModelFromEnvironment env m0 = envModel"
    using assms(3) by (simp add: getModelFromEnvironment_def m0_def)
  have f: "modelRegistry m0 = reg" "currentAuthType m0 = a"
    "currentModelId m0 = orElse (initialModelId options) []" "selectionSource m0 = DEFAULT"
    by (simp_all add: m0_def)
  have persisted: "(currentModelId m0 \<noteq> [] \<and> hasModel reg a (currentModelId m0)) \<longleftrightarrow>
        (\<exists>i. initialModelId options = Some i \<and> hasModel reg a i)"
    using ne by (auto simp: f orElse_def split: option.splits if_splits)
  have environment: "(envModel \<noteq> None \<and> the envModel \<noteq> [] \<and> hasModel reg a (the envModel)) \<longleftrightarrow>
        (\<exists>e. envModel = Some e \<and> hasModel reg a e)"
    using ne by auto
  have init: "initializeDefaultSelection env m0 =
      (if \<exists>i. initialModelId options = Some i \<and> hasModel reg a i
       then m0\<lparr>selectionSource := SETTINGS\<rparr>
       else if \<exists>e. envModel = Some e \<and> hasModel reg a e
       then m0\<lparr>currentModelId := the envModel, selectionSource := ENVIRONMENT\<rparr>
       else (case getDefaultModelForAuthType reg a of
               Some d \<Rightarrow> m0\<lparr>currentModelId := rm_id d, selectionSource := DEFAULT\<rparr>
             | None \<Rightarrow> m0))"
    unfolding initializeDefaultSelection_def Let_def envm f(1,2) persisted environment
    by (rule refl)
  show ?thesis
  proof (cases "\<exists>i. initialModelId options = Some i \<and> hasModel reg a i")
    case True
    then obtain i where i: "initialModelId options = Some i" "hasModel reg a i" by blast
    with ne have "currentModelId m0 = i" by (simp add: f orElse_def)
    with c init True i f show ?thesis by simp
  next
    case False
    note nopers = this
    show ?thesis
    proof (cases "\<exists>e. envModel = Some e \<and> hasModel reg a e")
      case True
      then obtain e where e: "envModel = Some e" "hasModel reg a e" by blast
      with c init nopers True f show ?thesis by simp
    next
      case False
      with c init nopers f show ?thesis
        by (auto simp: orElse_def split: option.splits)
    qed
  qed
qed

lemma more_manager_fields:
  "ModelRegistry_constructor (modelProvidersConfig example_options) = Inr (modelRegistry example_manager)"
  "ModelRegistry_constructor (modelProvidersConfig env_options) = Inr (modelRegistry example_manager)"
  "hasModel (modelRegistry example_manager) ''openai'' ''gpt-4-turbo''"
  "ModelRegistry_constructor (modelProvidersConfig stale_options) = Inr (modelRegistry stale_manager)"
  "\<not> hasModel (modelRegistry stale_manager) ''openai'' ''non-existent''"
  by (simp_all add: example_manager_def example_options_def env_options_def stale_manager_def
      example_defs eval_defs)

theorem initialization_precedence_witness:
  "ModelRegistry_constructor (modelProvidersConfig example_options) =
     Inr (modelRegistry example_manager) \<and>
   map_sum id currentModelId (ModelSelectionManager_constructor example_options empty_env 1000) =
     Inr ''gpt-4-turbo'' \<and>
   map_sum id selectionSource (ModelSelectionManager_constructor example_options empty_env 1000) =
     Inr SETTINGS \<and>
   map_sum id currentModelId (ModelSelectionManager_constructor env_options openai_env 1000) =
     Inr ''gpt-3.5-turbo'' \<and>
   map_sum id selectionSource (ModelSelectionManager_constructor env_options openai_env 1000) =
     Inr ENVIRONMENT \<and>
   map_sum id currentModelId (ModelSelectionManager_constructor env_options empty_env 1000) =
     Inr ''gpt-4-turbo'' \<and>
   map_sum id selectionSource (ModelSelectionManager_constructor env_options empty_env 1000) =
     Inr DEFAULT \<and>
   map_sum id currentModelId (ModelSelectionManager_constructor unselected_options empty_env 1000) =
     Inr [] \<and>
   map_sum id currentModelId (ModelSelectionManager_constructor no_options empty_env 1000) =
     Inr ''coder-model'' \<and>
   map_sum id selectionSource (ModelSelectionManager_constructor no_options empty_env 1000) =
     Inr DEFAULT"
proof -
  have a: "''openai'' = orElse (initialAuthType example_options) QWEN_OAUTH"
    "''openai'' = orElse (initialAuthType env_options) QWEN_OAUTH"
    by (simp_all add: example_options_def env_options_def orElse_def USE_OPENAI_def)
  have e: "None = (if ''openai'' = USE_OPENAI then empty_env ''OPENAI_MODEL'' else None)"
    "Some ''gpt-3.5-turbo'' = (if ''openai'' = USE_OPENAI then openai_env ''OPENAI_MODEL'' else None)"
    by (simp_all add: empty_env_def openai_env_def USE_OPENAI_def)
  have i: "initialModelId example_options = Some ''gpt-4-turbo''"
    "initialModelId env_options = Some ''non-existent''"
    by (simp_all add: example_options_def env_options_def)
  have h: "hasModel (modelRegistry example_manager) ''openai'' ''gpt-3.5-turbo''"
    "\<not> hasModel (modelRegistry example_manager) ''openai'' ''non-existent''"
    using example_manager_fields by simp_all
  from initialization_precedence[of example_options "modelRegistry example_manager" "''openai''"
      None empty_env 1000, OF more_manager_fields(1) a(1) e(1)] i more_manager_fields(3)
  have 1: "map_sum id currentModelId (ModelSelectionManager_constructor example_options empty_env 1000) =
     Inr ''gpt-4-turbo'' \<and>
   map_sum id selectionSource (ModelSelectionManager_constructor example_options empty_env 1000) =
     Inr SETTINGS"
    by auto
  from initialization_precedence[of env_options "modelRegistry example_manager" "''openai''"
      "Some ''gpt-3.5-turbo''" openai_env 1000, OF more_manager_fields(2) a(2) e(2)] i h
  have 2: "map_sum id currentModelId (ModelSelectionManager_constructor env_options openai_env 1000) =
     Inr ''gpt-3.5-turbo'' \<and>
   map_sum id selectionSource (ModelSelectionManager_constructor env_options openai_env 1000) =
     Inr ENVIRONMENT"
    by auto
  have 3: "map_sum id currentModelId (ModelSelectionManager_constructor env_options empty_env 1000) =
     Inr ''gpt-4-turbo'' \<and>
   map_sum id selectionSource (ModelSelectionManager_constructor env_options empty_env 1000) =
     Inr DEFAULT \<and>
   map_sum id currentModelId (ModelSelectionManager_constructor unselected_options empty_env 1000) =
     Inr [] \<and>
   map_sum id currentModelId (ModelSelectionManager_constructor no_options empty_env 1000) =
     Inr ''coder-model'' \<and>
   map_sum id selectionSource (ModelSelectionManager_constructor no_options empty_env 1000) =
     Inr DEFAULT"
    by (simp add: env_options_def no_options_def example_defs eval_defs)
  from 1 2 3 more_manager_fields(1) show ?thesis by simp
qed

text \<open>
  C4 as stated fails in its last case: with a supplied identifier that the registry
  lacks, nothing in the environment and no default for the provider-type, the
  constructor returns a manager whose current identifier is the supplied one, not the
  empty string.
\<close>

theorem initialization_ends_empty_counterexample:
  "initialModelId stale_options = Some ''non-existent'' \<and>
   \<not> hasModel (modelRegistry stale_manager) ''openai'' ''non-existent'' \<and>
   getModelFromEnvironment empty_env stale_manager = None \<and>
   getDefaultModelForAuthType (modelRegistry stale_manager) ''openai'' = None \<and>
   ModelSelectionManager_constructor stale_options empty_env 1000 = Inr stale_manager \<and>
   currentAuthType stale_manager = ''openai'' \<and>
   currentModelId stale_manager = ''non-existent''"
  by (simp add: stale_manager_def getModelFromEnvironment_def example_defs eval_defs)

end
